theory Spec2Isabelle
  imports Main "HOL-Library.Word" "HOL-Library.Sublist"
begin

unbundle bit_operations_syntax

section \<open>Strings, buffers and the identifier codec\<close>

text \<open>
  A JavaScript string is a sequence of UTF-16 code units; a Node \<open>Buffer\<close> is a
  sequence of bytes. \<open>js\<close> reads an ASCII literal of the source as such a string.
\<close>

type_synonym jschar = "16 word"
type_synonym jsstring = "jschar list"
type_synonym byte = "8 word"
type_synonym buffer = "byte list"

definition js :: "string \<Rightarrow> jsstring" where
  "js s = map (\<lambda>c. of_nat (of_char c)) s"

text \<open>
  \<open>new Buffer(a)\<close> on a string encodes it as UTF-8: one byte below U+0080, two below
  U+0800, a surrogate pair as the four bytes of its code point, a lone surrogate as
  U+FFFD (EF BF BD), three bytes otherwise.
\<close>

definition is_high_surrogate :: "jschar \<Rightarrow> bool" where
  "is_high_surrogate c = (0xD800 \<le> unat c \<and> unat c < 0xDC00)"

definition is_low_surrogate :: "jschar \<Rightarrow> bool" where
  "is_low_surrogate c = (0xDC00 \<le> unat c \<and> unat c < 0xE000)"

definition utf8_unit :: "jschar \<Rightarrow> buffer" where
  "utf8_unit c =
     (let u = unat c in
      if u < 0x80 then [of_nat u]
      else if u < 0x800 then [of_nat (0xC0 + u div 64), of_nat (0x80 + u mod 64)]
      else if is_high_surrogate c \<or> is_low_surrogate c then [0xEF, 0xBF, 0xBD]
      else [of_nat (0xE0 + u div 4096), of_nat (0x80 + (u div 64) mod 64),
            of_nat (0x80 + u mod 64)])"

definition utf8_pair :: "jschar \<Rightarrow> jschar \<Rightarrow> buffer" where
  "utf8_pair hi lo =
     (let cp = 0x10000 + (unat hi - 0xD800) * 0x400 + (unat lo - 0xDC00) in
      [of_nat (0xF0 + cp div 262144), of_nat (0x80 + (cp div 4096) mod 64),
       of_nat (0x80 + (cp div 64) mod 64), of_nat (0x80 + cp mod 64)])"

fun utf8_encode :: "jsstring \<Rightarrow> buffer" where
  "utf8_encode [] = []"
| "utf8_encode [c] = utf8_unit c"
| "utf8_encode (c # d # ds) =
     (if is_high_surrogate c \<and> is_low_surrogate d then utf8_pair c d @ utf8_encode ds
      else utf8_unit c @ utf8_encode (d # ds))"

text \<open>
  \<open>buf.toString('base64')\<close>: three bytes become four characters of the alphabet
  A-Z a-z 0-9 + /, the last group is padded with \<open>=\<close>.
\<close>

definition b64char :: "nat \<Rightarrow> jschar" where
  "b64char n =
     (if n < 26 then of_nat (65 + n)
      else if n < 52 then of_nat (71 + n)
      else if n < 62 then of_nat (n - 4)
      else if n = 62 then 0x2B
      else 0x2F)"

fun base64_encode :: "buffer \<Rightarrow> jsstring" where
  "base64_encode [] = []"
| "base64_encode [a] =
     [b64char (unat a div 4), b64char ((unat a mod 4) * 16), 0x3D, 0x3D]"
| "base64_encode [a, b] =
     [b64char (unat a div 4), b64char ((unat a mod 4) * 16 + unat b div 16),
      b64char ((unat b mod 16) * 4), 0x3D]"
| "base64_encode (a # b # c # bs) =
     [b64char (unat a div 4), b64char ((unat a mod 4) * 16 + unat b div 16),
      b64char ((unat b mod 16) * 4 + unat c div 64), b64char (unat c mod 64)]
     @ base64_encode bs"

text \<open>
  \<open>new Buffer(b, 'base64')\<close>: Node's decoder skips every character outside the
  alphabet (it also reads the URL-safe \<open>-\<close> and \<open>_\<close>), stops at the first \<open>=\<close>,
  and emits a byte as soon as the second, third and fourth character of a group arrive.
\<close>

definition b64val :: "jschar \<Rightarrow> nat option" where
  "b64val c =
     (let u = unat c in
      if 65 \<le> u \<and> u \<le> 90 then Some (u - 65)
      else if 97 \<le> u \<and> u \<le> 122 then Some (u - 71)
      else if 48 \<le> u \<and> u \<le> 57 then Some (u + 4)
      else if u = 0x2B \<or> u = 0x2D then Some 62
      else if u = 0x2F \<or> u = 0x5F then Some 63
      else None)"

fun b64_sextets :: "jsstring \<Rightarrow> nat list" where
  "b64_sextets [] = []"
| "b64_sextets (c # cs) =
     (if c = 0x3D then []
      else case b64val c of Some v \<Rightarrow> v # b64_sextets cs | None \<Rightarrow> b64_sextets cs)"

fun b64_bytes :: "nat list \<Rightarrow> buffer" where
  "b64_bytes (v1 # v2 # v3 # v4 # vs) =
     [of_nat (v1 * 4 + v2 div 16), of_nat ((v2 mod 16) * 16 + v3 div 4),
      of_nat ((v3 mod 4) * 64 + v4)] @ b64_bytes vs"
| "b64_bytes [v1, v2, v3] =
     [of_nat (v1 * 4 + v2 div 16), of_nat ((v2 mod 16) * 16 + v3 div 4)]"
| "b64_bytes [v1, v2] = [of_nat (v1 * 4 + v2 div 16)]"
| "b64_bytes [v1] = []"
| "b64_bytes [] = []"

definition base64_decode :: "jsstring \<Rightarrow> buffer" where
  "base64_decode s = b64_bytes (b64_sextets s)"

text \<open>\<open>buf.toString('ascii')\<close> clears the highest bit of every byte.\<close>

definition ascii_decode :: "buffer \<Rightarrow> jsstring" where
  "ascii_decode bs = map (\<lambda>b. ucast (b AND 0x7F)) bs"

text \<open>Lines 52 and 53 of base.ts.\<close>

definition a2b :: "jsstring \<Rightarrow> jsstring" where
  "a2b a = base64_encode (utf8_encode a)"

definition b2a :: "jsstring \<Rightarrow> jsstring" where
  "b2a b = ascii_decode (base64_decode b)"

section \<open>The loop-prevention tagger\<close>

text \<open>
  The constructor of \<open>Base\<close> (lines 66 to 77) reads the tag and its pattern from the
  optional \<open>Deduplication\<close> override; an absent or empty field falls back to the
  default (\<open>x || d\<close>).
\<close>

record deduplication =
  dd_tag :: "jsstring option"
  dd_pattern :: "jsstring option"

definition js_or :: "jsstring option \<Rightarrow> jsstring \<Rightarrow> jsstring" where
  "js_or a d = (case a of None \<Rightarrow> d | Some s \<Rightarrow> if s = [] then d else s)"

definition truthy :: "jsstring option \<Rightarrow> bool" where
  "truthy a = (case a of None \<Rightarrow> False | Some s \<Rightarrow> s \<noteq> [])"

text \<open>
  \<open>new RegExp(pattern)\<close> without flags, for the patterns this model reads: literal
  characters and \<open>\uXXXX\<close> escapes, with an optional \<open>$\<close> as the last character.
  \<open>regexp_literal\<close> returns the literal and whether it is anchored at the end of the
  input; any other syntax character puts the pattern outside the fragment (\<open>None\<close>).
  The syntax characters are \<open>^ $ \ . * + ? ( ) [ ] { } |\<close>.
\<close>

definition is_syntax_char :: "jschar \<Rightarrow> bool" where
  "is_syntax_char c =
     (c \<in> set [0x5E, 0x24, 0x5C, 0x2E, 0x2A, 0x2B, 0x3F, 0x28, 0x29, 0x5B, 0x5D, 0x7B, 0x7D, 0x7C])"

definition hexval :: "jschar \<Rightarrow> nat option" where
  "hexval c =
     (let u = unat c in
      if 48 \<le> u \<and> u \<le> 57 then Some (u - 48)
      else if 97 \<le> u \<and> u \<le> 102 then Some (u - 87)
      else if 65 \<le> u \<and> u \<le> 70 then Some (u - 55)
      else None)"

fun regexp_literal :: "jsstring \<Rightarrow> (jsstring \<times> bool) option" where
  "regexp_literal [] = Some ([], False)"
| "regexp_literal (c # cs) =
     (if c = 0x24 \<and> cs = [] then Some ([], True)
      else if c = 0x5C then
        (case cs of
           u # h1 # h2 # h3 # h4 # rest \<Rightarrow>
             (case (u = 0x75, hexval h1, hexval h2, hexval h3, hexval h4) of
                (True, Some x1, Some x2, Some x3, Some x4) \<Rightarrow>
                  map_option
                    (\<lambda>(lit, anchored).
                       (of_nat (((x1 * 16 + x2) * 16 + x3) * 16 + x4) # lit, anchored))
                    (regexp_literal rest)
              | _ \<Rightarrow> None)
         | _ \<Rightarrow> None)
      else if is_syntax_char c then None
      else map_option (\<lambda>(lit, anchored). (c # lit, anchored)) (regexp_literal cs))"

text \<open>
  \<open>regexp.test(s)\<close>: a literal matches anywhere in the input; with \<open>$\<close> (and no
  multiline flag) only at its very end.
\<close>

definition js_ends_with :: "jsstring \<Rightarrow> jsstring \<Rightarrow> bool" where
  "js_ends_with lit s = (length lit \<le> length s \<and> drop (length s - length lit) s = lit)"

fun js_includes :: "jsstring \<Rightarrow> jsstring \<Rightarrow> bool" where
  "js_includes lit [] = (lit = [])"
| "js_includes lit (c # cs) = (take (length lit) (c # cs) = lit \<or> js_includes lit cs)"

definition regexp_test :: "jsstring \<times> bool \<Rightarrow> jsstring \<Rightarrow> bool" where
  "regexp_test re s = (if snd re then js_ends_with (fst re) s else js_includes (fst re) s)"

definition RegExp_new :: "jsstring \<Rightarrow> (jsstring \<Rightarrow> bool) option" where
  "RegExp_new pattern = map_option regexp_test (regexp_literal pattern)"

text \<open>
  The immutable part of a \<open>Base\<close>. The compiled expression is kept as its \<open>test\<close>
  function: a flagless \<open>RegExp\<close> keeps no state between calls.
\<close>

record base =
  identityPair_id :: jsstring
  network :: jsstring
  deduplicationTag :: jsstring
  deduplicationTagPattern :: jsstring
  deduplicationTagRegex :: "jsstring \<Rightarrow> bool"

text \<open>Lines 622 to 627: a space and U+FEFF; the pattern is the eight characters space, backslash, u, f, e, f, f, dollar.\<close>

definition defaultDeduplicationTag :: jsstring where
  "defaultDeduplicationTag = [0x20, 0xFEFF]"

definition defaultDeduplicationTagPattern :: jsstring where
  "defaultDeduplicationTagPattern = [0x20, 0x5C, 0x75, 0x66, 0x65, 0x66, 0x66, 0x24]"

definition Base_new :: "jsstring \<Rightarrow> jsstring \<Rightarrow> deduplication option \<Rightarrow> base option" where
  "Base_new ident net dedupe =
     (let tg = js_or (case dedupe of None \<Rightarrow> None | Some d \<Rightarrow> dd_tag d) defaultDeduplicationTag;
          pattern = js_or (case dedupe of None \<Rightarrow> None | Some d \<Rightarrow> dd_pattern d)
                      defaultDeduplicationTagPattern
      in case RegExp_new pattern of
           None \<Rightarrow> None
         | Some re \<Rightarrow>
             Some \<lparr>identityPair_id = ident, network = net, deduplicationTag = tg,
                   deduplicationTagPattern = pattern, deduplicationTagRegex = re\<rparr>)"

text \<open>Lines 628 to 633.\<close>

definition tagMatrixMessage :: "base \<Rightarrow> jsstring \<Rightarrow> jsstring" where
  "tagMatrixMessage b txt = txt @ deduplicationTag b"

definition isTaggedMatrixMessage :: "base \<Rightarrow> jsstring \<Rightarrow> bool" where
  "isTaggedMatrixMessage b txt = deduplicationTagRegex b txt"

text \<open>
  Modelled from the spec: \<open>autoTagger\<close> is imported from \<open>./utils\<close>, which is not among
  the sources. The spec's inbound step (3) is "apply the Tagger to outgoing text" and
  its contract is that "every send performed by this system [...] passes through
  \<open>tag\<close>": the tagger built for a sender applies \<open>tagMatrixMessage\<close>.
\<close>

definition autoTagger :: "jsstring option \<Rightarrow> base \<Rightarrow> jsstring \<Rightarrow> jsstring" where
  "autoTagger senderId b txt = tagMatrixMessage b txt"

text \<open>Lines 272 to 274 and 254 to 260: the derived names.\<close>

definition getRoomAliasLocalPartFromThirdPartyRoomId :: "base \<Rightarrow> jsstring \<Rightarrow> jsstring" where
  "getRoomAliasLocalPartFromThirdPartyRoomId b ident =
     network b @ js ''_puppet_'' @ identityPair_id b @ js ''_'' @ ident"

section \<open>Promises and the outside world\<close>

text \<open>
  An error value carries its \<open>message\<close>. A synchronous \<open>throw\<close> and a rejected promise
  are both the outcome \<open>Rejected\<close>; \<open>Pending\<close> is a promise that never settles (the
  alias repair of the room lookup has no bound).
\<close>

datatype error = Error jsstring | TypeError jsstring

fun message :: "error \<Rightarrow> jsstring" where
  "message (Error m) = m"
| "message (TypeError m) = m"

datatype 'a outcome = Resolved 'a | Rejected error | Pending

datatype client = PuppetClient | BotClient | GhostClient jsstring

record content =
  c_body :: jsstring
  c_formatted_body :: "jsstring option"
  c_format :: "jsstring option"
  c_msgtype :: jsstring

record image_opts =
  o_mimetype :: "jsstring option"
  o_h :: "nat option"
  o_w :: "nat option"
  o_size :: nat

record image =
  i_url :: jsstring
  i_text :: jsstring
  i_mimetype :: "jsstring option"
  i_width :: "nat option"
  i_height :: "nat option"
  i_size :: "nat option"

record image_info =
  info_mimetype :: "jsstring option"
  info_w :: "nat option"
  info_h :: "nat option"
  info_size :: "nat option"

record matrix_event =
  e_type :: jsstring
  e_room_id :: jsstring
  e_sender :: jsstring
  e_body :: jsstring
  e_msgtype :: jsstring
  e_url :: jsstring
  e_info :: "image_info option"

record user_data =
  u_name :: "jsstring option"
  u_avatarUrl :: "jsstring option"

record room_data =
  r_name :: jsstring
  r_topic :: jsstring
  r_avatarUrl :: "jsstring option"

record upload_result =
  content_uri :: jsstring
  upload_size :: nat

text \<open>
  What a lookup in an object used as a dictionary of strings gives: the string stored
  under the key, or, for a key that is not stored but names a property of
  \<open>Object.prototype\<close>, that inherited member.
\<close>

datatype js_value = StringValue jsstring | Inherited jsstring

text \<open>Every operation the code asks of a collaborator, with its arguments.\<close>

datatype call =
    GetRoomIdForAlias jsstring
  | CreateRoom bool jsstring jsstring jsstring
  | SetPowerLevel jsstring jsstring nat
  | JoinRoom jsstring
  | DeleteAlias jsstring
  | IntentJoin client jsstring
  | IntentLeave jsstring
  | SetDisplayName jsstring jsstring
  | SetAvatarUrl jsstring jsstring
  | SetRoomAvatar jsstring jsstring
  | GetProfileInfo jsstring
  | UploadContent client buffer jsstring jsstring
  | Upload client jsstring "jsstring option" "buffer option" "jsstring option"
  | SendMessage client jsstring content
  | SendImageMessage client jsstring jsstring image_opts jsstring
  | GetRemoteUser jsstring
  | SetRemoteUser jsstring user_data
  | Download jsstring
  | LocalDisk jsstring
  | ReadFile jsstring
  | AdapterGetUserData jsstring
  | AdapterGetRoomData jsstring
  | AdapterSendMessage jsstring jsstring
  | AdapterSendImageMessage jsstring image
  | AdapterSendReadReceipt js_value
  | AdapterHandleBangCommand jsstring matrix_event

text \<open>
  The trace lists the calls made so far, each with the error it failed with, if any.
  \<open>thirdPartyRooms\<close> is the map of \<open>Base\<close> (line 64), of which the state keeps the
  entries stored at line 419. Their keys are room ids, which start with \<open>!\<close>, and
  \<open>sendReadReceipt\<close> of \<open>Base\<close> is taken on such keys, where the \<open>in\<close> test of line 710
  meets no property of the prototype.
\<close>

type_synonym event = "call \<times> error option"

record state =
  trace :: "event list"
  thirdPartyRooms :: "jsstring \<rightharpoonup> jsstring"

type_synonym 'a promise = "state \<Rightarrow> 'a outcome \<times> state"

text \<open>
  What the adapter declares, and the rest of the world: pure helpers of the platform,
  and for each kind of answer a function from the history and the call to the answer.
  The answers may depend on everything that happened before.
\<close>

record adapter =
  serviceName :: jsstring
  serviceIconPath :: "jsstring option"
  has_handleMatrixUserBangCommand :: bool
  has_sendReadReceipt :: bool

text \<open>
  The payloads of the third-party side. An optional field is an \<open>option\<close>; \<open>truthy\<close>
  tells an absent or empty string from a usable one.
\<close>

record text_payload =
  tp_senderId :: "jsstring option"
  tp_senderName :: "jsstring option"
  tp_avatarUrl :: "jsstring option"
  tp_roomId :: jsstring
  tp_text :: jsstring
  tp_html :: "jsstring option"

record image_payload =
  ip_senderId :: "jsstring option"
  ip_senderName :: "jsstring option"
  ip_avatarUrl :: "jsstring option"
  ip_roomId :: jsstring
  ip_text :: jsstring
  ip_url :: "jsstring option"
  ip_path :: "jsstring option"
  ip_buffer :: "buffer option"
  ip_h :: "nat option"
  ip_w :: "nat option"
  ip_mimetype :: "jsstring option"

record prepare_params =
  pp_senderId :: "jsstring option"
  pp_senderName :: "jsstring option"
  pp_avatarUrl :: "jsstring option"
  pp_roomId :: jsstring
  pp_text :: jsstring

record message_handler =
  h_tag :: "jsstring \<Rightarrow> jsstring"
  h_matrixRoomId :: jsstring
  h_client :: client
  h_ignore :: "bool option"

record status_options =
  so_fixedWidthOutput :: "bool option"
  so_roomAliasLocalPart :: "jsstring option"

datatype status_arg =
    ArgString jsstring
  | ArgError error
  | ArgTextPayload text_payload
  | ArgEvent matrix_event

record env =
  the_adapter :: adapter
  makeRoomAlias :: "jsstring \<Rightarrow> jsstring"
  makeUserAlias :: "jsstring \<Rightarrow> jsstring"
  puppetClient_userId :: jsstring
  puppet_userId :: "jsstring option"
  room_aliases :: "jsstring \<Rightarrow> jsstring list option"
  regexp_match1 :: "jsstring \<Rightarrow> jsstring \<Rightarrow> jsstring option"
  parseBangCommand :: "jsstring \<Rightarrow> jsstring option"
  mxcUrlToHttp :: "jsstring \<Rightarrow> jsstring"
  path_basename :: "jsstring \<Rightarrow> jsstring"
  inspect :: "status_arg \<Rightarrow> jsstring"
  entities_encode :: "jsstring \<Rightarrow> jsstring"
  reply_unit :: "event list \<Rightarrow> call \<Rightarrow> error option"
  reply_room :: "event list \<Rightarrow> call \<Rightarrow> error + jsstring"
  reply_upload :: "event list \<Rightarrow> call \<Rightarrow> error + upload_result"
  reply_bytes :: "event list \<Rightarrow> call \<Rightarrow> error + buffer \<times> jsstring"
  reply_profile :: "event list \<Rightarrow> call \<Rightarrow> error + jsstring option"
  reply_remote_user :: "event list \<Rightarrow> call \<Rightarrow> error + user_data option"
  reply_user_data :: "event list \<Rightarrow> call \<Rightarrow> error + user_data"
  reply_room_data :: "event list \<Rightarrow> call \<Rightarrow> error + room_data"

definition resolve :: "'a \<Rightarrow> 'a promise" where
  "resolve x st = (Resolved x, st)"

definition reject :: "error \<Rightarrow> 'a promise" where
  "reject e st = (Rejected e, st)"

definition pending :: "'a promise" where
  "pending st = (Pending, st)"

text \<open>\<open>p.then(f)\<close>, \<open>p.then(f, g)\<close> (\<open>g\<close> does not see a failure of \<open>f\<close>) and \<open>p.catch(g)\<close>.\<close>

definition then_do :: "'a promise \<Rightarrow> ('a \<Rightarrow> 'b promise) \<Rightarrow> 'b promise" where
  "then_do p f st =
     (case p st of
        (Resolved x, st') \<Rightarrow> f x st'
      | (Rejected e, st') \<Rightarrow> (Rejected e, st')
      | (Pending, st') \<Rightarrow> (Pending, st'))"

definition then_else :: "'a promise \<Rightarrow> ('a \<Rightarrow> 'b promise) \<Rightarrow> (error \<Rightarrow> 'b promise) \<Rightarrow> 'b promise" where
  "then_else p f g st =
     (case p st of
        (Resolved x, st') \<Rightarrow> f x st'
      | (Rejected e, st') \<Rightarrow> g e st'
      | (Pending, st') \<Rightarrow> (Pending, st'))"

definition catch_do :: "'a promise \<Rightarrow> (error \<Rightarrow> 'a promise) \<Rightarrow> 'a promise" where
  "catch_do p g st =
     (case p st of
        (Rejected e, st') \<Rightarrow> g e st'
      | (r, st') \<Rightarrow> (r, st'))"

text \<open>
  A promise that is started and not returned: what it does happens, and its outcome
  reaches nobody. (The model runs it at once; where the source lets it run beside the
  caller, only the order of the trace is a choice of the model.)
\<close>

definition detached :: "'a promise \<Rightarrow> unit promise" where
  "detached p st = (Resolved (), snd (p st))"

text \<open>
  \<open>Promise.all([p, q])\<close> of two started promises: both run; the result is rejected if
  one of them is, pending if one never settles.
\<close>

definition promise_all2 :: "unit promise \<Rightarrow> unit promise \<Rightarrow> unit promise" where
  "promise_all2 p q st =
     (case p st of (r1, st1) \<Rightarrow>
        (case q st1 of (r2, st2) \<Rightarrow>
           (case r1 of
              Rejected e \<Rightarrow> (Rejected e, st2)
            | Pending \<Rightarrow> (case r2 of Rejected e \<Rightarrow> (Rejected e, st2) | _ \<Rightarrow> (Pending, st2))
            | Resolved _ \<Rightarrow> (r2, st2))))"

text \<open>
  \<open>Promise.all\<close> of an array of functions: a function is not a promise, so the array
  resolves as it is and none of the functions is called.
\<close>

definition promise_all_values :: "'a list \<Rightarrow> unit promise" where
  "promise_all_values xs = resolve ()"

text \<open>An outside call: the world answers from the history, and the call is recorded.\<close>

definition perform :: "call \<Rightarrow> (event list \<Rightarrow> error + 'a) \<Rightarrow> 'a promise" where
  "perform c answer st =
     (case answer (trace st) of
        Inl e \<Rightarrow> (Rejected e, st\<lparr>trace := trace st @ [(c, Some e)]\<rparr>)
      | Inr v \<Rightarrow> (Resolved v, st\<lparr>trace := trace st @ [(c, None)]\<rparr>))"

definition call_unit :: "env \<Rightarrow> call \<Rightarrow> unit promise" where
  "call_unit env c =
     perform c (\<lambda>h. case reply_unit env h c of None \<Rightarrow> Inr () | Some e \<Rightarrow> Inl e)"

definition call_room :: "env \<Rightarrow> call \<Rightarrow> jsstring promise" where
  "call_room env c = perform c (\<lambda>h. reply_room env h c)"

definition call_upload :: "env \<Rightarrow> call \<Rightarrow> upload_result promise" where
  "call_upload env c = perform c (\<lambda>h. reply_upload env h c)"

definition call_bytes :: "env \<Rightarrow> call \<Rightarrow> (buffer \<times> jsstring) promise" where
  "call_bytes env c = perform c (\<lambda>h. reply_bytes env h c)"

definition call_profile :: "env \<Rightarrow> call \<Rightarrow> jsstring option promise" where
  "call_profile env c = perform c (\<lambda>h. reply_profile env h c)"

definition call_remote_user :: "env \<Rightarrow> call \<Rightarrow> user_data option promise" where
  "call_remote_user env c = perform c (\<lambda>h. reply_remote_user env h c)"

definition call_user_data :: "env \<Rightarrow> call \<Rightarrow> user_data promise" where
  "call_user_data env c = perform c (\<lambda>h. reply_user_data env h c)"

definition call_room_data :: "env \<Rightarrow> call \<Rightarrow> room_data promise" where
  "call_room_data env c = perform c (\<lambda>h. reply_room_data env h c)"

section \<open>Room lifecycle\<close>

definition str_of :: "jsstring option \<Rightarrow> jsstring" where
  "str_of a = (case a of None \<Rightarrow> [] | Some s \<Rightarrow> s)"

definition getRoomAliasFromThirdPartyRoomId :: "env \<Rightarrow> base \<Rightarrow> jsstring \<Rightarrow> jsstring" where
  "getRoomAliasFromThirdPartyRoomId env b ident =
     makeRoomAlias env (getRoomAliasLocalPartFromThirdPartyRoomId b ident)"

definition getGhostUserFromThirdPartySenderId :: "env \<Rightarrow> base \<Rightarrow> jsstring \<Rightarrow> jsstring" where
  "getGhostUserFromThirdPartySenderId env b ident =
     makeUserAlias env (getRoomAliasLocalPartFromThirdPartyRoomId b ident)"

text \<open>
  Lines 109 to 119 and again 361 to 371: the grant is attempted, its failure is
  swallowed, and the room id is passed on.
\<close>

definition grantPuppetMaxPowerLevel :: "env \<Rightarrow> jsstring \<Rightarrow> jsstring promise" where
  "grantPuppetMaxPowerLevel env room_id =
     then_do
       (catch_do (call_unit env (SetPowerLevel room_id (puppetClient_userId env) 100))
          (\<lambda>err. resolve ()))
       (\<lambda>_. resolve room_id)"

text \<open>Lines 673 to 707.\<close>

definition setRoomAvatar :: "env \<Rightarrow> jsstring \<Rightarrow> jsstring \<Rightarrow> unit promise" where
  "setRoomAvatar env roomId avatarUrl =
     then_do
       (then_do (call_bytes env (Download avatarUrl))
          (\<lambda>(buf, tp).
             call_upload env (UploadContent BotClient buf (path_basename env avatarUrl) tp)))
       (\<lambda>res. call_unit env (SetRoomAvatar roomId (content_uri res)))"

definition setRoomAvatarFromDisk :: "env \<Rightarrow> jsstring \<Rightarrow> jsstring \<Rightarrow> unit promise" where
  "setRoomAvatarFromDisk env roomId avatarPath =
     then_do
       (then_do (call_bytes env (LocalDisk avatarPath))
          (\<lambda>(buf, tp).
             call_upload env (UploadContent BotClient buf (path_basename env avatarPath) tp)))
       (\<lambda>res. call_unit env (SetRoomAvatar roomId (content_uri res)))"

text \<open>
  Lines 99 to 159. The function calls itself after it has deleted the alias; the
  first argument bounds the number of such restarts the model follows, and a run that
  needs more is \<open>Pending\<close>.
\<close>

fun getStatusRoomId :: "nat \<Rightarrow> env \<Rightarrow> base \<Rightarrow> jsstring option \<Rightarrow> jsstring promise" where
  "getStatusRoomId 0 env b aliasLocalPart = pending"
| "getStatusRoomId (Suc n) env b aliasLocalPart =
     (let roomAliasLocalPart =
            js_or aliasLocalPart (getRoomAliasLocalPartFromThirdPartyRoomId b (js ''status_room''));
          roomAlias = makeRoomAlias env roomAliasLocalPart
      in then_do
           (then_else (call_room env (GetRoomIdForAlias roomAlias))
              (\<lambda>room_id. grantPuppetMaxPowerLevel env room_id)
              (\<lambda>err.
                 then_do
                   (call_room env
                      (CreateRoom False (serviceName (the_adapter env) @ js '' Protocol'')
                         (serviceName (the_adapter env) @ js '' Protocol Status Messages'')
                         roomAliasLocalPart))
                   (\<lambda>room_id.
                      if truthy (serviceIconPath (the_adapter env))
                      then then_do
                             (setRoomAvatarFromDisk env room_id
                                (str_of (serviceIconPath (the_adapter env))))
                             (\<lambda>_. resolve room_id)
                      else resolve room_id)))
           (\<lambda>matrixRoomId.
              then_else (call_unit env (JoinRoom matrixRoomId))
                (\<lambda>_. grantPuppetMaxPowerLevel env matrixRoomId)
                (\<lambda>err.
                   if message err = js ''No known servers''
                   then then_do (call_unit env (DeleteAlias roomAlias))
                          (\<lambda>_. getStatusRoomId n env b aliasLocalPart)
                   else resolve matrixRoomId)))"

definition remember_room :: "jsstring \<Rightarrow> jsstring \<Rightarrow> unit promise" where
  "remember_room matrixRoomId thirdPartyRoomId st =
     (Resolved (),
      st\<lparr>thirdPartyRooms := (thirdPartyRooms st)(matrixRoomId \<mapsto> thirdPartyRoomId)\<rparr>)"

text \<open>Lines 352 to 423, with the same bound on restarts.\<close>

fun getOrCreateMatrixRoomFromThirdPartyRoomId ::
    "nat \<Rightarrow> env \<Rightarrow> base \<Rightarrow> jsstring \<Rightarrow> jsstring promise" where
  "getOrCreateMatrixRoomFromThirdPartyRoomId 0 env b thirdPartyRoomId = pending"
| "getOrCreateMatrixRoomFromThirdPartyRoomId (Suc n) env b thirdPartyRoomId =
     (let roomAlias = getRoomAliasFromThirdPartyRoomId env b thirdPartyRoomId;
          roomAliasName = getRoomAliasLocalPartFromThirdPartyRoomId b thirdPartyRoomId
      in then_do
           (then_do
              (then_else (call_room env (GetRoomIdForAlias roomAlias))
                 (\<lambda>room_id. resolve room_id)
                 (\<lambda>err.
                    then_do (call_room_data env (AdapterGetRoomData (b2a thirdPartyRoomId)))
                      (\<lambda>thirdPartyRoomData.
                         then_do
                           (call_room env
                              (CreateRoom True (r_name thirdPartyRoomData)
                                 (r_topic thirdPartyRoomData) roomAliasName))
                           (\<lambda>room_id.
                              if truthy (r_avatarUrl thirdPartyRoomData)
                              then then_do
                                     (setRoomAvatar env room_id
                                        (str_of (r_avatarUrl thirdPartyRoomData)))
                                     (\<lambda>_. resolve room_id)
                              else resolve room_id))))
              (\<lambda>matrixRoomId.
                 then_else (call_unit env (JoinRoom matrixRoomId))
                   (\<lambda>_. grantPuppetMaxPowerLevel env matrixRoomId)
                   (\<lambda>err.
                      if message err = js ''No known servers''
                      then then_do (call_unit env (DeleteAlias roomAlias))
                             (\<lambda>_. getOrCreateMatrixRoomFromThirdPartyRoomId n env b
                                      thirdPartyRoomId)
                      else resolve matrixRoomId)))
           (\<lambda>matrixRoomId.
              then_do (remember_room matrixRoomId thirdPartyRoomId)
                (\<lambda>_. then_do (detached (call_unit env (IntentLeave matrixRoomId)))
                        (\<lambda>_. resolve matrixRoomId))))"

text \<open>
  Lines 262 to 271. The expression is built as the source builds it and handed to the
  platform's matcher, which returns the first group of a match; \<open>getRoom\<close> of a room
  the client does not know is \<open>null\<close>, and the call on it throws.
\<close>

definition alias_pattern :: "base \<Rightarrow> jsstring" where
  "alias_pattern b =
     js ''^#'' @ network b @ js ''_puppet_'' @ identityPair_id b @ js ''_([a-zA-Z0-9+''
       @ [0x5C] @ js ''/=_]+)$''"

definition getThirdPartyRoomIdFromMatrixRoomId ::
    "env \<Rightarrow> base \<Rightarrow> jsstring \<Rightarrow> error + jsstring option" where
  "getThirdPartyRoomIdFromMatrixRoomId env b matrixRoomId =
     (case room_aliases env matrixRoomId of
        None \<Rightarrow> Inl (TypeError (js ''Cannot read property getAliases of null''))
      | Some aliases \<Rightarrow>
          Inr (foldl
                 (\<lambda>result alias.
                    case regexp_match1 env (alias_pattern b) (takeWhile (\<lambda>c. c \<noteq> 0x3A) alias) of
                      Some m \<Rightarrow> Some m
                    | None \<Rightarrow> result)
                 None aliases))"

section \<open>Ghost profiles\<close>

text \<open>Lines 330 to 350.\<close>

definition getOrInitRemoteUserStoreDataFromThirdPartyUserId ::
    "env \<Rightarrow> jsstring \<Rightarrow> user_data option promise" where
  "getOrInitRemoteUserStoreDataFromThirdPartyUserId env thirdPartyUserId =
     then_do (call_remote_user env (GetRemoteUser thirdPartyUserId))
       (\<lambda>rUser.
          case rUser of
            Some r \<Rightarrow> resolve (Some r)
          | None \<Rightarrow>
              then_do (call_user_data env (AdapterGetUserData (b2a thirdPartyUserId)))
                (\<lambda>thirdPartyUserData.
                   then_do (call_unit env (SetRemoteUser thirdPartyUserId thirdPartyUserData))
                     (\<lambda>_. call_remote_user env (GetRemoteUser thirdPartyUserId))))"

text \<open>Lines 648 to 671.\<close>

definition setGhostAvatar :: "env \<Rightarrow> jsstring \<Rightarrow> jsstring \<Rightarrow> unit promise" where
  "setGhostAvatar env ghost avatarUrl =
     then_do (call_profile env (GetProfileInfo ghost))
       (\<lambda>avatar_url.
          if truthy avatar_url then resolve ()
          else then_do
                 (then_do (call_bytes env (Download avatarUrl))
                    (\<lambda>(buf, tp).
                       call_upload env
                         (UploadContent (GhostClient ghost) buf (path_basename env avatarUrl) tp)))
                 (\<lambda>res. call_unit env (SetAvatarUrl ghost (content_uri res))))"

text \<open>
  Lines 286 to 314. Reading a field of the stored user throws when the store answers
  \<open>null\<close> a second time.
\<close>

definition getIntentFromThirdPartySenderId ::
    "env \<Rightarrow> base \<Rightarrow> jsstring \<Rightarrow> jsstring option \<Rightarrow> jsstring option \<Rightarrow> jsstring promise" where
  "getIntentFromThirdPartySenderId env b userId name avatarUrl =
     (let ghost = getGhostUserFromThirdPartySenderId env b userId;
          null_user = TypeError (js ''Cannot read property get of null'');
          p1 = (if truthy name then call_unit env (SetDisplayName ghost (str_of name))
                else then_do (getOrInitRemoteUserStoreDataFromThirdPartyUserId env userId)
                       (\<lambda>remoteUser.
                          case remoteUser of
                            None \<Rightarrow> reject null_user
                          | Some r \<Rightarrow>
                              if truthy (u_name r)
                              then call_unit env (SetDisplayName ghost (str_of (u_name r)))
                              else resolve ()));
          p2 = (if truthy avatarUrl then setGhostAvatar env ghost (str_of avatarUrl)
                else then_do (getOrInitRemoteUserStoreDataFromThirdPartyUserId env userId)
                       (\<lambda>remoteUser.
                          case remoteUser of
                            None \<Rightarrow> reject null_user
                          | Some r \<Rightarrow>
                              if truthy (u_avatarUrl r)
                              then setGhostAvatar env ghost (str_of (u_avatarUrl r))
                              else resolve ()))
      in then_do (promise_all2 p1 p2) (\<lambda>_. resolve ghost))"

section \<open>The status room notice\<close>

text \<open>Lines 202 to 209: the arguments joined by single spaces.\<close>

fun reduce_args :: "env \<Rightarrow> jsstring \<Rightarrow> nat \<Rightarrow> status_arg list \<Rightarrow> jsstring" where
  "reduce_args env acc index [] = acc"
| "reduce_args env acc index (arg # args) =
     reduce_args env
       (acc @ (if index > 0 then js '' '' else [])
            @ (case arg of ArgString str \<Rightarrow> str | _ \<Rightarrow> inspect env arg))
       (Suc index) args"

text \<open>The two functions pushed on \<open>promiseList\<close> (lines 221 to 224 and 230 to 248).\<close>

definition status_join :: "env \<Rightarrow> jsstring \<Rightarrow> unit promise" where
  "status_join env statusRoomId = detached (call_unit env (IntentJoin BotClient statusRoomId))"

definition status_notice :: "env \<Rightarrow> base \<Rightarrow> status_options \<Rightarrow> jsstring \<Rightarrow> jsstring \<Rightarrow> unit promise" where
  "status_notice env b options statusRoomId msgText =
     (let txt = tagMatrixMessage b msgText
      in if so_fixedWidthOutput options = Some True
         then call_unit env
                (SendMessage BotClient statusRoomId
                   \<lparr>c_body = txt,
                    c_formatted_body =
                      Some (js ''<pre><code>'' @ entities_encode env txt @ js ''</code></pre>''),
                    c_format = Some (js ''org.matrix.custom.html''),
                    c_msgtype = js ''m.notice''\<rparr>)
         else call_unit env
                (SendMessage BotClient statusRoomId
                   \<lparr>c_body = txt, c_formatted_body = None, c_format = None,
                    c_msgtype = js ''m.notice''\<rparr>))"

text \<open>
  Lines 193 to 252. \<open>bridge.getIntent()\<close> yields an intent on every call (line 105
  dereferences it unguarded before the test of line 215 is reached), so that test is
  never taken. The two functions are collected and handed to \<open>Promise.all\<close> as they are.
\<close>

definition sendStatusMsg ::
    "nat \<Rightarrow> env \<Rightarrow> base \<Rightarrow> status_options \<Rightarrow> status_arg list \<Rightarrow> unit promise" where
  "sendStatusMsg n env b options0 args =
     (let options = (if so_fixedWidthOutput options0 = None
                     then options0\<lparr>so_fixedWidthOutput := Some True\<rparr> else options0);
          msgText = reduce_args env [] 0 args
      in then_do (getStatusRoomId n env b (so_roomAliasLocalPart options))
           (\<lambda>statusRoomId.
              let promiseList =
                    [status_join env statusRoomId,
                     status_notice env b options statusRoomId msgText]
              in promise_all_values promiseList))"

section \<open>The relay pipeline\<close>

text \<open>Lines 425 to 449.\<close>

definition prepareMessageHandler ::
    "nat \<Rightarrow> env \<Rightarrow> base \<Rightarrow> prepare_params \<Rightarrow> message_handler promise" where
  "prepareMessageHandler n env b params =
     (let tg = autoTagger (pp_senderId params) b
      in then_do (getOrCreateMatrixRoomFromThirdPartyRoomId n env b (pp_roomId params))
           (\<lambda>matrixRoomId.
              case pp_senderId params of
                None \<Rightarrow>
                  (let handler = \<lparr>h_tag = tg, h_matrixRoomId = matrixRoomId,
                                  h_client = PuppetClient, h_ignore = None\<rparr>
                   in if isTaggedMatrixMessage b (pp_text params)
                      then resolve (handler\<lparr>h_ignore := Some True\<rparr>)
                      else resolve handler)
              | Some senderId \<Rightarrow>
                  then_do
                    (getIntentFromThirdPartySenderId env b senderId (pp_senderName params)
                       (pp_avatarUrl params))
                    (\<lambda>ghost.
                       then_do
                         (then_do (getStatusRoomId n env b None)
                            (\<lambda>statusRoomId. call_unit env (IntentJoin (GhostClient ghost) statusRoomId)))
                         (\<lambda>_. then_do (call_unit env (IntentJoin (GhostClient ghost) matrixRoomId))
                                 (\<lambda>_. resolve \<lparr>h_tag = tg, h_matrixRoomId = matrixRoomId,
                                                h_client = GhostClient ghost, h_ignore = None\<rparr>)))))"

text \<open>
  Lines 454 to 512. The upload helper of \<open>createUploader\<close> (\<open>./utils\<close>, not among the
  sources) is an outside call. With a \<open>path\<close>, and with none of the three sources,
  \<open>promise\<close> is a promise and not a function, and calling it throws. The chain started
  by \<open>promise()\<close> is not returned.
\<close>

definition handleThirdPartyRoomImageMessage ::
    "nat \<Rightarrow> env \<Rightarrow> base \<Rightarrow> image_payload \<Rightarrow> unit promise" where
  "handleThirdPartyRoomImageMessage n env b payload0 =
     (let payload1 =
            (if truthy (ip_senderId payload0)
             then (let p = (if truthy (ip_senderName payload0) then payload0
                            else payload0\<lparr>ip_senderName := ip_senderId payload0\<rparr>)
                   in p\<lparr>ip_senderId := Some (a2b (str_of (ip_senderId p)))\<rparr>)
             else payload0);
          payload = payload1\<lparr>ip_roomId := a2b (ip_roomId payload1)\<rparr>;
          prep = \<lparr>pp_senderId = ip_senderId payload, pp_senderName = ip_senderName payload,
                  pp_avatarUrl = ip_avatarUrl payload, pp_roomId = ip_roomId payload,
                  pp_text = ip_text payload\<rparr>
      in then_do (prepareMessageHandler n env b prep)
           (\<lambda>handler.
              if h_ignore handler = Some True then resolve ()
              else
                (let upload = (\<lambda>buf tp.
                       call_upload env
                         (Upload (h_client handler) (ip_text payload) (ip_mimetype payload) buf tp));
                     uploaded = (\<lambda>res.
                       call_unit env
                         (SendImageMessage (h_client handler) (h_matrixRoomId handler)
                            (content_uri res)
                            \<lparr>o_mimetype = ip_mimetype payload, o_h = ip_h payload,
                             o_w = ip_w payload, o_size = upload_size res\<rparr>
                            (h_tag handler (ip_text payload))));
                     failed = (\<lambda>err.
                       call_unit env
                         (SendMessage (h_client handler) (h_matrixRoomId handler)
                            \<lparr>c_body =
                               h_tag handler
                                 (js_or (ip_url payload) (js_or (ip_path payload) (ip_text payload))),
                             c_formatted_body = None, c_format = None,
                             c_msgtype = js ''m.text''\<rparr>));
                     not_a_function = TypeError (js ''promise is not a function'')
                 in if truthy (ip_url payload)
                    then detached
                           (then_else
                              (then_do (call_bytes env (Download (str_of (ip_url payload))))
                                 (\<lambda>(buf, tp).
                                    upload (Some buf)
                                      (Some (js_or (ip_mimetype payload) tp))))
                              uploaded failed)
                    else if truthy (ip_path payload)
                    then then_do
                           (detached
                              (then_do (call_unit env (ReadFile (str_of (ip_path payload))))
                                 (\<lambda>_. upload (ip_buffer payload) None)))
                           (\<lambda>_. reject not_a_function)
                    else if ip_buffer payload \<noteq> None
                    then detached (then_else (upload (ip_buffer payload) None) uploaded failed)
                    else reject not_a_function)))"

text \<open>Lines 516 to 552.\<close>

definition handleThirdPartyRoomMessage ::
    "nat \<Rightarrow> env \<Rightarrow> base \<Rightarrow> text_payload \<Rightarrow> unit promise" where
  "handleThirdPartyRoomMessage n env b payload0 =
     (let payload1 =
            (if truthy (tp_senderId payload0)
             then (let p = payload0\<lparr>tp_senderId := Some (a2b (str_of (tp_senderId payload0)))\<rparr>
                   in if truthy (tp_senderName p) then p
                      else p\<lparr>tp_senderName := tp_senderId p\<rparr>)
             else payload0);
          payload = payload1\<lparr>tp_roomId := a2b (tp_roomId payload1)\<rparr>;
          prep = \<lparr>pp_senderId = tp_senderId payload, pp_senderName = tp_senderName payload,
                  pp_avatarUrl = tp_avatarUrl payload, pp_roomId = tp_roomId payload,
                  pp_text = tp_text payload\<rparr>
      in catch_do
           (then_do (prepareMessageHandler n env b prep)
              (\<lambda>handler.
                 if h_ignore handler = Some True then resolve ()
                 else if truthy (tp_html payload)
                 then call_unit env
                        (SendMessage (h_client handler) (h_matrixRoomId handler)
                           \<lparr>c_body = h_tag handler (tp_text payload),
                            c_formatted_body = tp_html payload,
                            c_format = Some (js ''org.matrix.custom.html''),
                            c_msgtype = js ''m.text''\<rparr>)
                 else call_unit env
                        (SendMessage (h_client handler) (h_matrixRoomId handler)
                           \<lparr>c_body = h_tag handler (tp_text payload),
                            c_formatted_body = None, c_format = None,
                            c_msgtype = js ''m.text''\<rparr>)))
           (\<lambda>err.
              detached
                (sendStatusMsg n env b
                   \<lparr>so_fixedWidthOutput = None, so_roomAliasLocalPart = None\<rparr>
                   [ArgError err, ArgTextPayload payload])))"

text \<open>
  Lines 564 to 620. \<open>puppet_userId\<close> is what \<open>this.puppet.userId\<close> reads; the image
  descriptor is built inside \<open>promise()\<close>, before the \<open>catch\<close> is attached.
\<close>

definition handleMatrixMessageEvent ::
    "nat \<Rightarrow> env \<Rightarrow> base \<Rightarrow> matrix_event \<Rightarrow> unit promise" where
  "handleMatrixMessageEvent n env b data =
     (if puppet_userId env \<noteq> Some (e_sender data) \<or> isTaggedMatrixMessage b (e_body data)
      then resolve ()
      else
        (case getThirdPartyRoomIdFromMatrixRoomId env b (e_room_id data) of
           Inl e \<Rightarrow> reject e
         | Inr thirdPartyRoomId \<Rightarrow>
             (let isStatusRoom = (thirdPartyRoomId = Some (js ''status_room''));
                  report = (\<lambda>err.
                    detached
                      (sendStatusMsg n env b
                         \<lparr>so_fixedWidthOutput = None, so_roomAliasLocalPart = None\<rparr>
                         [ArgError err, ArgEvent data]))
              in if \<not> truthy thirdPartyRoomId
                 then catch_do
                        (reject (Error (js ''could not determine third party room id!'')))
                        report
                 else if isStatusRoom
                 then (let msg = tagMatrixMessage b (js ''Commands are currently ignored here'')
                       in catch_do
                            (sendStatusMsg n env b
                               \<lparr>so_fixedWidthOutput = Some False, so_roomAliasLocalPart = None\<rparr>
                               [ArgString msg])
                            report)
                 else
                   (let msg = tagMatrixMessage b (e_body data) in
                    if e_msgtype data = js ''m.text''
                    then (case (if has_handleMatrixUserBangCommand (the_adapter env)
                                then parseBangCommand env (e_body data) else None) of
                            Some bc \<Rightarrow> call_unit env (AdapterHandleBangCommand bc data)
                          | None \<Rightarrow>
                              catch_do
                                (call_unit env
                                   (AdapterSendMessage (b2a (str_of thirdPartyRoomId)) msg))
                                report)
                    else if e_msgtype data = js ''m.image''
                    then (case e_info data of
                            None \<Rightarrow>
                              reject (TypeError (js ''Cannot read property mimetype of undefined''))
                          | Some info \<Rightarrow>
                              catch_do
                                (call_unit env
                                   (AdapterSendImageMessage (b2a (str_of thirdPartyRoomId))
                                      \<lparr>i_url = mxcUrlToHttp env (e_url data),
                                       i_text = tagMatrixMessage b (e_body data),
                                       i_mimetype = info_mimetype info,
                                       i_width = info_w info, i_height = info_h info,
                                       i_size = info_size info\<rparr>))
                                report)
                    else catch_do
                           (reject
                              (Error (js ''dont know how to handle this msgtype ''
                                        @ e_msgtype data)))
                           report))))"

text \<open>Lines 554 to 562.\<close>

definition handleMatrixEvent :: "nat \<Rightarrow> env \<Rightarrow> base \<Rightarrow> matrix_event \<Rightarrow> unit promise" where
  "handleMatrixEvent n env b data =
     (if e_type data = js ''m.room.message'' then handleMatrixMessageEvent n env b data
      else resolve ())"

section \<open>Read receipts\<close>

text \<open>Lines 709 to 713.\<close>

definition sendReadReceipt :: "env \<Rightarrow> jsstring \<Rightarrow> unit promise" where
  "sendReadReceipt env roomId st =
     (case thirdPartyRooms st roomId of
        None \<Rightarrow> resolve () st
      | Some thirdPartyRoomId \<Rightarrow>
          (if has_sendReadReceipt (the_adapter env)
           then call_unit env (AdapterSendReadReceipt (StringValue (b2a thirdPartyRoomId))) st
           else reject (TypeError (js ''this.adapter.sendReadReceipt is not a function'')) st))"

text \<open>
  The \<open>Puppet\<close> class: its id, the adapter it was given (if any) and its own map of
  rooms (lines 735 to 752, 865 to 876). The map is a plain object (line 750), of which
  the record keeps the own properties; \<open>in\<close> (line 778) and the index (line 784) also
  see the properties it inherits from \<open>Object.prototype\<close>, and an assignment to
  \<open>__proto__\<close> of a string stores nothing.
\<close>

record puppet =
  puppet_id :: jsstring
  puppet_adapter :: "adapter option"
  puppet_thirdPartyRooms :: "jsstring \<rightharpoonup> jsstring"

definition object_prototype_keys :: "jsstring list" where
  "object_prototype_keys =
     [js ''constructor'', js ''__defineGetter__'', js ''__defineSetter__'', js ''hasOwnProperty'',
      js ''__lookupGetter__'', js ''__lookupSetter__'', js ''isPrototypeOf'',
      js ''propertyIsEnumerable'', js ''toString'', js ''valueOf'', js ''__proto__'',
      js ''toLocaleString'']"

definition in_object :: "jsstring \<Rightarrow> (jsstring \<rightharpoonup> jsstring) \<Rightarrow> bool" where
  "in_object k obj = (obj k \<noteq> None \<or> k \<in> set object_prototype_keys)"

definition object_get :: "(jsstring \<rightharpoonup> jsstring) \<Rightarrow> jsstring \<Rightarrow> js_value" where
  "object_get obj k = (case obj k of Some v \<Rightarrow> StringValue v | None \<Rightarrow> Inherited k)"


definition setAdapter :: "puppet \<Rightarrow> adapter \<Rightarrow> puppet" where
  "setAdapter p a = p\<lparr>puppet_adapter := Some a\<rparr>"

text \<open>
  The content of a receipt event: for each event id, the user ids under \<open>m.read\<close>
  (\<open>None\<close> when the event id has no such entry: the inner loop then runs over
  nothing). Lines 776 to 790 return at the first user id that is the puppet's own.
\<close>

record receipt =
  rc_roomId :: jsstring
  rc_content :: "(jsstring \<times> jsstring list option) list"

fun read_by :: "jsstring \<Rightarrow> (jsstring \<times> jsstring list option) list \<Rightarrow> bool" where
  "read_by uid [] = False"
| "read_by uid ((eventId, None) # rest) = read_by uid rest"
| "read_by uid ((eventId, Some userIds) # rest) = (uid \<in> set userIds \<or> read_by uid rest)"

definition on_room_receipt :: "env \<Rightarrow> puppet \<Rightarrow> receipt \<Rightarrow> unit promise" where
  "on_room_receipt env p r =
     (case puppet_adapter p of
        None \<Rightarrow> resolve ()
      | Some a \<Rightarrow>
          if has_sendReadReceipt a
          then (if in_object (rc_roomId r) (puppet_thirdPartyRooms p)
                then (if read_by (puppet_id p) (rc_content r)
                      then call_unit env
                             (AdapterSendReadReceipt
                                (object_get (puppet_thirdPartyRooms p) (rc_roomId r)))
                      else resolve ())
                else resolve ())
          else resolve ())"

text \<open>The guard of line 777: an adapter is attached and has a read-receipt operation.\<close>

definition receipt_guard :: "puppet \<Rightarrow> bool" where
  "receipt_guard p = (case puppet_adapter p of None \<Rightarrow> False | Some a \<Rightarrow> has_sendReadReceipt a)"

section \<open>Reading a run\<close>

text \<open>
  The events a promise adds to the trace when it is run from a state, and the classes
  of calls the properties speak about: a message sent into a home-network room, and
  content handed to the third-party adapter.
\<close>

definition emitted :: "'a promise \<Rightarrow> state \<Rightarrow> event list" where
  "emitted p st = drop (length (trace st)) (trace (snd (p st)))"

fun is_home_send :: "call \<Rightarrow> bool" where
  "is_home_send (SendMessage cl room c) = True"
| "is_home_send (SendImageMessage cl room uri opts msg) = True"
| "is_home_send _ = False"

fun is_adapter_relay :: "call \<Rightarrow> bool" where
  "is_adapter_relay (AdapterSendMessage room msg) = True"
| "is_adapter_relay (AdapterSendImageMessage room img) = True"
| "is_adapter_relay (AdapterHandleBangCommand bc data) = True"
| "is_adapter_relay _ = False"

definition quiet :: "event \<Rightarrow> bool" where
  "quiet ev = (\<not> is_home_send (fst ev) \<and> \<not> is_adapter_relay (fst ev))"

text \<open>
  \<open>wt p R\<close>: from every state, \<open>p\<close> only appends to the trace, and \<open>R\<close> holds of its
  outcome and of the events it appended. \<open>emits P p\<close>: every appended event satisfies
  \<open>P\<close>.
\<close>

definition wt :: "'a promise \<Rightarrow> ('a outcome \<Rightarrow> event list \<Rightarrow> bool) \<Rightarrow> bool" where
  "wt p R = (\<forall>st. \<exists>evs. trace (snd (p st)) = trace st @ evs \<and> R (fst (p st)) evs)"

definition emits :: "(event \<Rightarrow> bool) \<Rightarrow> 'a promise \<Rightarrow> bool" where
  "emits P p = wt p (\<lambda>r evs. list_all P evs)"

named_theorems emits_intros


definition tagged_send :: "base \<Rightarrow> event \<Rightarrow> bool" where
  "tagged_send b ev =
     (case fst ev of
        SendMessage cl room c \<Rightarrow> js_ends_with (deduplicationTag b) (c_body c)
      | SendImageMessage cl room uri opts msg \<Rightarrow> js_ends_with (deduplicationTag b) msg
      | _ \<Rightarrow> True)"

text \<open>
  \<open>yields P Q p\<close>: as \<open>emits P p\<close>, and \<open>Q\<close> holds of the value \<open>p\<close> resolves with.
  \<open>tagged_send b\<close> holds of an event unless it sends a body into a room that does
  not end with the tag of \<open>b\<close>.
\<close>

definition yields :: "(event \<Rightarrow> bool) \<Rightarrow> ('a \<Rightarrow> bool) \<Rightarrow> 'a promise \<Rightarrow> bool" where
  "yields P Q p = wt p (\<lambda>r evs. list_all P evs \<and> (\<forall>x. r = Resolved x \<longrightarrow> Q x))"

named_theorems yields_intros

section \<open>Sample worlds and inputs\<close>

text \<open>
  A world in which every call succeeds, a bridge with the default marker, the empty
  state, and the inputs the sample runs below are made on.
\<close>

definition example_adapter :: adapter where
  "example_adapter =
     \<lparr>serviceName = js ''slack'', serviceIconPath = None,
      has_handleMatrixUserBangCommand = True, has_sendReadReceipt = True\<rparr>"

definition example_env :: env where
  "example_env =
     \<lparr>the_adapter = example_adapter,
      makeRoomAlias = (\<lambda>l. js ''#'' @ l @ js '':example.org''),
      makeUserAlias = (\<lambda>l. js ''@'' @ l @ js '':example.org''),
      puppetClient_userId = js ''@me:example.org'',
      puppet_userId = Some (js ''@me:example.org''),
      room_aliases = (\<lambda>r. Some [js ''#slack_puppet_me_status_room:example.org'']),
      regexp_match1 =
        (\<lambda>patt s. if s = js ''#slack_puppet_me_status_room'' then Some (js ''status_room'') else None),
      parseBangCommand = (\<lambda>body. None),
      mxcUrlToHttp = (\<lambda>u. u),
      path_basename = (\<lambda>p. p),
      inspect = (\<lambda>a. js ''[object]''),
      entities_encode = (\<lambda>t. t),
      reply_unit = (\<lambda>h c. None),
      reply_room = (\<lambda>h c. Inr (js ''!room:example.org'')),
      reply_upload = (\<lambda>h c. Inr \<lparr>content_uri = js ''mxc://example.org/abc'', upload_size = 3\<rparr>),
      reply_bytes = (\<lambda>h c. Inr ([1, 2, 3], js ''image/png'')),
      reply_profile = (\<lambda>h c. Inr None),
      reply_remote_user = (\<lambda>h c. Inr None),
      reply_user_data = (\<lambda>h c. Inr \<lparr>u_name = None, u_avatarUrl = None\<rparr>),
      reply_room_data =
        (\<lambda>h c. Inr \<lparr>r_name = js ''general'', r_topic = js ''talk'', r_avatarUrl = None\<rparr>)\<rparr>"

definition example_base :: base where
  "example_base =
     \<lparr>identityPair_id = js ''me'', network = js ''slack'',
      deduplicationTag = defaultDeduplicationTag,
      deduplicationTagPattern = defaultDeduplicationTagPattern,
      deduplicationTagRegex = regexp_test (defaultDeduplicationTag, True)\<rparr>"

definition start :: state where
  "start = \<lparr>trace = [], thirdPartyRooms = Map.empty\<rparr>"

definition status_room_event :: matrix_event where
  "status_room_event =
     \<lparr>e_type = js ''m.room.message'', e_room_id = js ''!room:example.org'',
      e_sender = js ''@me:example.org'', e_body = js ''!help'', e_msgtype = js ''m.text'',
      e_url = [], e_info = None\<rparr>"

definition example_puppet :: puppet where
  "example_puppet =
     \<lparr>puppet_id = js ''@me:example.org'', puppet_adapter = None,
      puppet_thirdPartyRooms = Map.empty\<rparr>"

definition example_receipt :: receipt where
  "example_receipt =
     \<lparr>rc_roomId = js ''!room:example.org'',
      rc_content = [(js ''$event1'', Some [js ''@me:example.org''])]\<rparr>"



definition tagged_event :: matrix_event where
  "tagged_event = status_room_event\<lparr>e_body := tagMatrixMessage example_base (js ''hi'')\<rparr>"

definition own_text_payload :: text_payload where
  "own_text_payload =
     \<lparr>tp_senderId = None, tp_senderName = None, tp_avatarUrl = None,
      tp_roomId = js ''general'', tp_text = js ''hi'', tp_html = None\<rparr>"

definition path_image_payload :: image_payload where
  "path_image_payload =
     \<lparr>ip_senderId = None, ip_senderName = None, ip_avatarUrl = None,
      ip_roomId = js ''general'', ip_text = js ''hi'',
      ip_url = None, ip_path = Some (js ''/tmp/a.png''), ip_buffer = None,
      ip_h = None, ip_w = None, ip_mimetype = None\<rparr>"

definition url_image_payload :: image_payload where
  "url_image_payload =
     path_image_payload\<lparr>ip_url := Some (js ''http://example.org/a.png''), ip_path := None\<rparr>"

definition no_directory_env :: env where
  "no_directory_env = example_env\<lparr>reply_room := \<lambda>h c. Inl (Error (js ''M_UNKNOWN''))\<rparr>"

section \<open>Counting the steps of an alias repair\<close>

definition count_events :: "(event \<Rightarrow> bool) \<Rightarrow> event list \<Rightarrow> nat" where
  "count_events P evs = length (filter P evs)"

definition is_lookup :: "event \<Rightarrow> bool" where
  "is_lookup ev = (case fst ev of GetRoomIdForAlias a \<Rightarrow> True | _ \<Rightarrow> False)"

definition is_delete :: "event \<Rightarrow> bool" where
  "is_delete ev = (case fst ev of DeleteAlias a \<Rightarrow> True | _ \<Rightarrow> False)"

definition is_delete_ok :: "event \<Rightarrow> bool" where
  "is_delete_ok ev = (is_delete ev \<and> snd ev = None)"

definition is_unjoinable :: "event \<Rightarrow> bool" where
  "is_unjoinable ev =
     (case fst ev of
        JoinRoom room \<Rightarrow>
          (case snd ev of None \<Rightarrow> False | Some e \<Rightarrow> message e = js ''No known servers'')
      | _ \<Rightarrow> False)"

definition repair_balance :: "nat \<Rightarrow> 'a outcome \<Rightarrow> event list \<Rightarrow> bool" where
  "repair_balance n r evs =
     (count_events is_delete evs = count_events is_unjoinable evs \<and>
      count_events is_lookup evs + (if r = Pending then 1 else 0)
        = Suc (count_events is_delete_ok evs) \<and>
      count_events is_delete_ok evs \<le> n \<and>
      (r = Pending) = (count_events is_delete_ok evs = n))"

definition neutral :: "event \<Rightarrow> bool" where
  "neutral ev = (\<not> is_lookup ev \<and> \<not> is_delete ev \<and> \<not> is_unjoinable ev)"

definition settles :: "'a promise \<Rightarrow> bool" where
  "settles p = wt p (\<lambda>r evs. r \<noteq> Pending)"

named_theorems settles_intros

definition still :: "'a promise \<Rightarrow> bool" where
  "still p = wt p (\<lambda>r evs. r \<noteq> Pending \<and> list_all neutral evs)"

definition join_balance :: "nat \<Rightarrow> 'a outcome \<Rightarrow> event list \<Rightarrow> bool" where
  "join_balance n r evs =
     (count_events is_delete evs = count_events is_unjoinable evs \<and>
      count_events is_lookup evs + (if r = Pending then 1 else 0) = count_events is_delete_ok evs \<and>
      count_events is_delete_ok evs \<le> Suc n \<and>
      (r = Pending) = (count_events is_delete_ok evs = Suc n))"

definition repair_step :: "nat \<Rightarrow> 'a outcome \<Rightarrow> event list \<Rightarrow> bool" where
  "repair_step n r evs =
     (count_events is_delete evs = Suc (count_events is_unjoinable evs) \<and>
      count_events is_lookup evs + (if r = Pending then 1 else 0) = count_events is_delete_ok evs \<and>
      count_events is_delete_ok evs \<le> Suc n \<and>
      (r = Pending) = (count_events is_delete_ok evs = Suc n))"

text \<open>
  The order of the steps. \<open>restart_link a e1 e2\<close> is what the repair allows of two
  consecutive events: after a join that failed with "No known servers" comes the
  deletion of the alias \<open>a\<close>, after a successful deletion the lookup of \<open>a\<close>, and no
  deletion and no lookup comes any other way. \<open>repair_trace n a r evs\<close>: a run with a
  positive bound starts with the lookup of \<open>a\<close>, every two consecutive events are so
  linked, the run does not end on a join that failed with "No known servers", and it
  ends on a successful deletion exactly when the bound has cut it off.
\<close>

definition restart_link :: "jsstring \<Rightarrow> event \<Rightarrow> event \<Rightarrow> bool" where
  "restart_link a e1 e2 =
     ((is_unjoinable e1 \<longrightarrow> fst e2 = DeleteAlias a) \<and>
      (is_delete_ok e1 \<longrightarrow> fst e2 = GetRoomIdForAlias a) \<and>
      (is_delete e2 \<longrightarrow> is_unjoinable e1) \<and>
      (is_lookup e2 \<longrightarrow> is_delete_ok e1))"

fun linked :: "(event \<Rightarrow> event \<Rightarrow> bool) \<Rightarrow> event list \<Rightarrow> bool" where
  "linked L [] = True"
| "linked L [x] = True"
| "linked L (x # y # zs) = (L x y \<and> linked L (y # zs))"

definition repair_segment :: "jsstring \<Rightarrow> bool \<Rightarrow> event list \<Rightarrow> bool" where
  "repair_segment a stopped evs =
     (evs \<noteq> [] \<and> linked (restart_link a) evs \<and> \<not> is_unjoinable (last evs) \<and>
      is_delete_ok (last evs) = stopped)"

definition repair_trace :: "nat \<Rightarrow> jsstring \<Rightarrow> 'a outcome \<Rightarrow> event list \<Rightarrow> bool" where
  "repair_trace n a r evs =
     (if n = 0 then r = Pending \<and> evs = []
      else fst (hd evs) = GetRoomIdForAlias a \<and> repair_segment a (r = Pending) evs)"

text \<open>
  A directory whose alias points at an emptied room until the alias is deleted, after
  which the lookup fails and a new room is created; and one that keeps answering the
  same room, which cannot be joined until the alias has been deleted twice.
\<close>

definition repaired_env :: env where
  "repaired_env =
     example_env
       \<lparr>reply_room :=
          (\<lambda>h c. case c of
             GetRoomIdForAlias a \<Rightarrow>
               if count_events is_delete h = 0 then Inr (js ''!old:example.org'')
               else Inl (Error (js ''M_NOT_FOUND''))
           | _ \<Rightarrow> Inr (js ''!new:example.org'')),
        reply_unit :=
          (\<lambda>h c. case c of
             JoinRoom room \<Rightarrow>
               if room = js ''!old:example.org'' then Some (Error (js ''No known servers''))
               else None
           | _ \<Rightarrow> None)\<rparr>"

definition stale_env :: env where
  "stale_env =
     example_env
       \<lparr>reply_unit :=
          (\<lambda>h c. case c of
             JoinRoom room \<Rightarrow>
               if count_events is_delete h < 2 then Some (Error (js ''No known servers''))
               else None
           | _ \<Rightarrow> None)\<rparr>"

section \<open>The codec on ASCII identifiers\<close>

lemma unat_and_7F: "unat ((b::byte) AND 0x7F) = unat b mod 128"
proof -
  have "(b AND 0x7F) = take_bit 7 b"
    by (simp add: take_bit_eq_mask mask_eq_exp_minus_1)
  then show ?thesis by (simp add: unsigned_take_bit_eq take_bit_eq_mod unat_mod)
qed

lemma unat_small16: "n < 65536 \<Longrightarrow> unat (of_nat n :: 16 word) = n"
  by (simp add: unat_of_nat)

lemma b64val_b64char: "n < 64 \<Longrightarrow> b64val (b64char n) = Some n"
proof -
  assume n: "n < 64"
  consider "n < 26" | "26 \<le> n \<and> n < 52" | "52 \<le> n \<and> n < 62" | "n = 62" | "n = 63"
    using n by linarith
  then show ?thesis
  proof cases
    case 1
    then have "unat (b64char n) = 65 + n" using unat_small16 [of "65 + n"] by (simp add: b64char_def)
    with 1 show ?thesis by (auto simp: b64val_def Let_def)
  next
    case 2
    then have "unat (b64char n) = 71 + n" using unat_small16 [of "71 + n"] by (simp add: b64char_def)
    with 2 show ?thesis by (auto simp: b64val_def Let_def)
  next
    case 3
    then have "n - 4 < 65536" by linarith
    from 3 unat_small16 [OF this] have "unat (b64char n) = n - 4" by (simp add: b64char_def)
    with 3 show ?thesis by (auto simp: b64val_def Let_def)
  next
    case 4
    then show ?thesis by (simp add: b64char_def b64val_def)
  next
    case 5
    then show ?thesis by (simp add: b64char_def b64val_def)
  qed
qed

lemma b64val_pad: "b64val 0x3D = None"
  by (simp add: b64val_def)

lemma b64char_not_pad: "n < 64 \<Longrightarrow> b64char n \<noteq> 0x3D"
  using b64val_b64char [of n] b64val_pad by auto

lemma b64_sextets_char: "n < 64 \<Longrightarrow> b64_sextets (b64char n # cs) = n # b64_sextets cs"
  by (simp add: b64val_b64char b64char_not_pad)

lemma byte_lt: "unat (a::byte) < 256"
  using unsigned_less [of a, where ?'a = nat] by simp

lemma div16_lt: "unat (a::byte) div 16 < 16"
  using byte_lt [of a] by (simp add: less_mult_imp_div_less)

lemma div64_lt: "unat (a::byte) div 64 < 4"
  using byte_lt [of a] by (simp add: less_mult_imp_div_less)

lemma div4_lt: "unat (a::byte) div 4 < 64"
  using byte_lt [of a] by (simp add: less_mult_imp_div_less)

lemma sext2_lt: "k < 4 \<Longrightarrow> r < 16 \<Longrightarrow> k * 16 + r < (64::nat)"
  by linarith

lemma sext3_lt: "s < 16 \<Longrightarrow> q < 4 \<Longrightarrow> s * 4 + q < (64::nat)"
  by linarith

lemma join1: "r < 16 \<Longrightarrow> (x div 4) * 4 + ((x mod 4) * 16 + r) div 16 = (x::nat)"
  by simp

lemma join2: "r < 16 \<Longrightarrow> q < 4 \<Longrightarrow> ((k * 16 + r) mod 16) * 16 + (s * 4 + q) div 4 = r * 16 + (s::nat)"
  by simp

lemma join3: "q < 4 \<Longrightarrow> ((s * 4 + q) mod 4) * 64 + t = q * 64 + (t::nat)"
  by simp

lemma decode_group3:
  fixes a b c :: byte
  shows "b64_bytes (unat a div 4 # ((unat a mod 4) * 16 + unat b div 16) #
            ((unat b mod 16) * 4 + unat c div 64) # (unat c mod 64) # vs) = a # b # c # b64_bytes vs"
proof -
  have 1: "unat a div 4 * 4 + ((unat a mod 4) * 16 + unat b div 16) div 16 = unat a"
    by (rule join1 [OF div16_lt])
  have 2: "(((unat a mod 4) * 16 + unat b div 16) mod 16) * 16 + ((unat b mod 16) * 4 + unat c div 64) div 4 = unat b"
    using join2 [OF div16_lt [of b] div64_lt [of c], of "unat a mod 4" "unat b mod 16"] by simp
  have 3: "(((unat b mod 16) * 4 + unat c div 64) mod 4) * 64 + unat c mod 64 = unat c"
    using join3 [OF div64_lt [of c], of "unat b mod 16" "unat c mod 64"] by simp
  show ?thesis
    unfolding b64_bytes.simps 1 2 3 by simp
qed

lemma decode_group2:
  fixes a b :: byte
  shows "b64_bytes [unat a div 4, (unat a mod 4) * 16 + unat b div 16, (unat b mod 16) * 4] = [a, b]"
proof -
  have 1: "unat a div 4 * 4 + ((unat a mod 4) * 16 + unat b div 16) div 16 = unat a"
    by (rule join1 [OF div16_lt])
  have 2: "(((unat a mod 4) * 16 + unat b div 16) mod 16) * 16 + ((unat b mod 16) * 4) div 4 = unat b"
    using join2 [OF div16_lt [of b], of 0 "unat a mod 4" "unat b mod 16"] by simp
  show ?thesis
    unfolding b64_bytes.simps 1 2 by simp
qed

lemma decode_group1:
  fixes a :: byte
  shows "b64_bytes [unat a div 4, (unat a mod 4) * 16] = [a]"
proof -
  have 1: "unat a div 4 * 4 + ((unat a mod 4) * 16) div 16 = unat a"
    using join1 [of 0 "unat a"] by simp
  show ?thesis
    unfolding b64_bytes.simps 1 by simp
qed

lemma sextets_group3:
  fixes a b c :: byte
  shows "b64_sextets ([b64char (unat a div 4), b64char ((unat a mod 4) * 16 + unat b div 16),
      b64char ((unat b mod 16) * 4 + unat c div 64), b64char (unat c mod 64)] @ cs) =
    unat a div 4 # ((unat a mod 4) * 16 + unat b div 16) #
            ((unat b mod 16) * 4 + unat c div 64) # (unat c mod 64) # b64_sextets cs"
proof -
  have 2: "(unat a mod 4) * 16 + unat b div 16 < 64"
    by (rule sext2_lt [OF _ div16_lt]) simp
  have 3: "(unat b mod 16) * 4 + unat c div 64 < 64"
    by (rule sext3_lt [OF _ div64_lt]) simp
  have 4: "unat c mod 64 < 64" by simp
  show ?thesis
    by (simp only: append_Cons append_Nil b64_sextets_char [OF div4_lt] b64_sextets_char [OF 2]
        b64_sextets_char [OF 3] b64_sextets_char [OF 4])
qed

lemma b64_sextets_pad: "b64_sextets (0x3D # cs) = []"
  by simp

lemma sextets_group2:
  fixes a b :: byte
  shows "b64_sextets [b64char (unat a div 4), b64char ((unat a mod 4) * 16 + unat b div 16),
      b64char ((unat b mod 16) * 4), 0x3D] =
    [unat a div 4, (unat a mod 4) * 16 + unat b div 16, (unat b mod 16) * 4]"
proof -
  have 2: "(unat a mod 4) * 16 + unat b div 16 < 64"
    by (rule sext2_lt [OF _ div16_lt]) simp
  have 3: "(unat b mod 16) * 4 < 64"
    using sext3_lt [of "unat b mod 16" 0] by simp
  show ?thesis
    by (simp only: b64_sextets_char [OF div4_lt] b64_sextets_char [OF 2]
        b64_sextets_char [OF 3] b64_sextets_pad)
qed

lemma sextets_group1:
  fixes a :: byte
  shows "b64_sextets [b64char (unat a div 4), b64char ((unat a mod 4) * 16), 0x3D, 0x3D] =
    [unat a div 4, (unat a mod 4) * 16]"
proof -
  have 2: "(unat a mod 4) * 16 < 64"
    using sext2_lt [of "unat a mod 4" 0] by simp
  show ?thesis
    by (simp only: b64_sextets_char [OF div4_lt] b64_sextets_char [OF 2] b64_sextets_pad)
qed

lemma base64_roundtrip: "base64_decode (base64_encode bs) = bs"
proof (induction bs rule: base64_encode.induct)
  case 1
  show ?case by (simp add: base64_decode_def)
next
  case (2 a)
  show ?case
    unfolding base64_decode_def base64_encode.simps sextets_group1 decode_group1 ..
next
  case (3 a b)
  show ?case
    unfolding base64_decode_def base64_encode.simps sextets_group2 decode_group2 ..
next
  case (4 a b c bs)
  then show ?case
    unfolding base64_decode_def base64_encode.simps sextets_group3 decode_group3 by simp
qed

lemma utf8_ascii: "list_all (\<lambda>c. c < 0x80) x \<Longrightarrow> utf8_encode x = map ucast x"
proof (induction x rule: utf8_encode.induct)
  case 1
  show ?case by simp
next
  case (2 c)
  then have "unat c < 128" by (simp add: word_less_nat_alt)
  then show ?case by (simp add: utf8_unit_def)
next
  case (3 c d ds)
  then have c: "unat c < 128" by (simp add: word_less_nat_alt)
  then have "\<not> is_high_surrogate c" by (simp add: is_high_surrogate_def)
  with 3 c show ?case by (simp add: utf8_unit_def)
qed

lemma ascii_unit: "(c::jschar) < 0x80 \<Longrightarrow> ucast ((ucast c :: byte) AND 0x7F) = c"
proof -
  assume "c < 0x80"
  then have c: "unat c < 128" by (simp add: word_less_nat_alt)
  have "unat ((ucast c :: byte) AND 0x7F) = unat (ucast c :: byte) mod 128" by (rule unat_and_7F)
  also have "unat (ucast c :: byte) = unat c" using c by (simp add: unsigned_ucast_eq take_bit_eq_mod)
  finally have "unat ((ucast c :: byte) AND 0x7F) = unat c" using c by simp
  then show ?thesis
    by (metis of_nat_unat ucast_id)
qed

lemma ascii_decode_ucast: "list_all (\<lambda>c. c < 0x80) x \<Longrightarrow> ascii_decode (map ucast x) = x"
  by (induction x) (simp_all add: ascii_decode_def ascii_unit)

text \<open>
  C1 (amended). For every string whose code units are all below 128, decoding the
  encoding gives the string back: \<open>b2a (a2b x) = x\<close>.
\<close>

theorem b2a_a2b_ascii: "list_all (\<lambda>c. c < 0x80) x \<Longrightarrow> b2a (a2b x) = x"
  by (simp add: b2a_def a2b_def base64_roundtrip utf8_ascii ascii_decode_ucast)

theorem b2a_a2b_ascii_witness:
  "list_all (\<lambda>c. c < 0x80) (js ''status_room'') \<and>
   b2a (a2b (js ''status_room'')) = js ''status_room''"
proof -
  have h: "list_all (\<lambda>c. c < 0x80) (js ''status_room'')"
    by (simp add: js_def)
  from h b2a_a2b_ascii [OF h] show ?thesis by simp
qed

text \<open>
  The claim as stated fails beyond ASCII: U+00E9 is encoded as the bytes C3 A9, and
  the ASCII reading of these two bytes is \<open>C)\<close>.
\<close>

theorem b2a_a2b_latin1_counterexample: "b2a (a2b [0xE9]) = [0x43, 0x29] \<and> b2a (a2b [0xE9]) \<noteq> [0xE9]"
  by (simp add: b2a_def a2b_def utf8_unit_def base64_decode_def b64val_def b64char_def
      ascii_decode_def is_high_surrogate_def is_low_surrogate_def)

section \<open>The tagger with its default marker\<close>

lemma default_pattern_literal:
  "regexp_literal defaultDeduplicationTagPattern = Some (defaultDeduplicationTag, True)"
  by (simp add: defaultDeduplicationTagPattern_def defaultDeduplicationTag_def hexval_def
      is_syntax_char_def)

lemma Base_new_default:
  "Base_new ident net None =
     Some \<lparr>identityPair_id = ident, network = net, deduplicationTag = defaultDeduplicationTag,
           deduplicationTagPattern = defaultDeduplicationTagPattern,
           deduplicationTagRegex = regexp_test (defaultDeduplicationTag, True)\<rparr>"
proof -
  have "js_or None defaultDeduplicationTag = defaultDeduplicationTag"
    and "js_or None defaultDeduplicationTagPattern = defaultDeduplicationTagPattern"
    by (simp_all add: js_or_def)
  then show ?thesis
    by (simp add: Base_new_def RegExp_new_def default_pattern_literal)
qed

lemma js_ends_with_append: "js_ends_with lit (t @ lit)"
  by (simp add: js_ends_with_def)

lemma js_ends_with_iff: "js_ends_with lit s = (\<exists>t. s = t @ lit)"
proof
  assume "js_ends_with lit s"
  then have "drop (length s - length lit) s = lit" by (simp add: js_ends_with_def)
  then have "s = take (length s - length lit) s @ lit"
    by (metis append_take_drop_id)
  then show "\<exists>t. s = t @ lit" ..
next
  assume "\<exists>t. s = t @ lit"
  then show "js_ends_with lit s" by (auto simp: js_ends_with_append)
qed

text \<open>
  C2 (amended). For a \<open>Base\<close> built without a deduplication override, every text that
  went through \<open>tagMatrixMessage\<close> is recognised by \<open>isTaggedMatrixMessage\<close>, and a text
  is recognised exactly when it is some text followed by the marker.
\<close>

theorem default_tag_roundtrip:
  assumes "Base_new ident net None = Some b"
  shows "isTaggedMatrixMessage b (tagMatrixMessage b t) \<and>
         isTaggedMatrixMessage b t = (\<exists>t'. t = tagMatrixMessage b t')"
proof -
  from assms have tg: "deduplicationTag b = defaultDeduplicationTag"
    and re: "deduplicationTagRegex b = regexp_test (defaultDeduplicationTag, True)"
    by (auto simp: Base_new_default)
  have "isTaggedMatrixMessage b s = (\<exists>t'. s = tagMatrixMessage b t')" for s
    by (simp add: isTaggedMatrixMessage_def tagMatrixMessage_def tg re regexp_test_def
        js_ends_with_iff)
  then show ?thesis by blast
qed

theorem default_tag_roundtrip_witness:
  "\<exists>b. Base_new (js ''me'') (js ''slack'') None = Some b \<and>
       isTaggedMatrixMessage b (tagMatrixMessage b (js ''hi'')) \<and>
       \<not> isTaggedMatrixMessage b (js ''hi'')"
proof -
  obtain b where b: "Base_new (js ''me'') (js ''slack'') None = Some b"
    by (simp add: Base_new_default)
  have tg: "deduplicationTag b = defaultDeduplicationTag"
    using b by (auto simp: Base_new_default)
  have "\<not> (\<exists>t'. js ''hi'' = tagMatrixMessage b t')"
    by (auto simp: tagMatrixMessage_def tg defaultDeduplicationTag_def js_def append_eq_Cons_conv)
  with default_tag_roundtrip [OF b] show ?thesis using b by blast
qed

text \<open>
  With an override the two need not agree: tag \<open>a\<close> and pattern \<open>b\<close> leave a tagged
  text unrecognised, and recognise the untagged text \<open>b\<close>.
\<close>

theorem tag_override_counterexample:
  "\<exists>b. Base_new (js ''me'') (js ''slack'')
         (Some \<lparr>dd_tag = Some (js ''a''), dd_pattern = Some (js ''b'')\<rparr>) = Some b \<and>
       \<not> isTaggedMatrixMessage b (tagMatrixMessage b (js ''hi'')) \<and>
       isTaggedMatrixMessage b (js ''b'') \<and>
       (\<forall>t'. js ''b'' \<noteq> tagMatrixMessage b t')"
  by (simp add: Base_new_def RegExp_new_def js_or_def js_def is_syntax_char_def Let_def
      isTaggedMatrixMessage_def tagMatrixMessage_def regexp_test_def append_eq_Cons_conv)

section \<open>Reasoning about traces\<close>

lemma wtI:
  assumes "\<And>st. \<exists>evs. trace (snd (p st)) = trace st @ evs \<and> R (fst (p st)) evs"
  shows "wt p R"
  using assms by (simp add: wt_def)

lemma wtD:
  assumes "wt p R"
  obtains evs where "trace (snd (p st)) = trace st @ evs" and "R (fst (p st)) evs"
  using assms unfolding wt_def by blast

lemma wt_emitted:
  assumes "wt p R"
  shows "trace (snd (p st)) = trace st @ emitted p st \<and> R (fst (p st)) (emitted p st)"
proof -
  from assms obtain evs where "trace (snd (p st)) = trace st @ evs" and "R (fst (p st)) evs"
    by (rule wtD)
  then show ?thesis by (simp add: emitted_def)
qed

lemma wt_mono:
  assumes "wt p R" and "\<And>r evs. R r evs \<Longrightarrow> R' r evs"
  shows "wt p R'"
  using assms unfolding wt_def by blast

lemma wt_resolve: "R (Resolved x) [] \<Longrightarrow> wt (resolve x) R"
  by (simp add: wt_def resolve_def)

lemma wt_reject: "R (Rejected e) [] \<Longrightarrow> wt (reject e) R"
  by (simp add: wt_def reject_def)

lemma wt_pending: "R Pending [] \<Longrightarrow> wt pending R"
  by (simp add: wt_def pending_def)

lemma wt_perform:
  assumes "\<And>v. R (Resolved v) [(c, None)]" and "\<And>e. R (Rejected e) [(c, Some e)]"
  shows "wt (perform c answer) R"
  using assms by (auto simp: wt_def perform_def split: sum.splits)

lemma wt_then_else:
  assumes p: "wt p R1"
    and f: "\<And>x. wt (f x) (Rf x)"
    and g: "\<And>e. wt (g e) (Rg e)"
    and ok: "\<And>x e1 r e2. R1 (Resolved x) e1 \<Longrightarrow> Rf x r e2 \<Longrightarrow> R r (e1 @ e2)"
    and err: "\<And>e e1 r e2. R1 (Rejected e) e1 \<Longrightarrow> Rg e r e2 \<Longrightarrow> R r (e1 @ e2)"
    and pend: "\<And>e1. R1 Pending e1 \<Longrightarrow> R Pending e1"
  shows "wt (then_else p f g) R"
proof (rule wtI)
  fix st
  from p obtain e1 where e1: "trace (snd (p st)) = trace st @ e1" and r1: "R1 (fst (p st)) e1"
    by (rule wtD)
  show "\<exists>evs. trace (snd (then_else p f g st)) = trace st @ evs \<and> R (fst (then_else p f g st)) evs"
  proof (cases "fst (p st)")
    case (Resolved x)
    from f [of x] obtain e2 where e2: "trace (snd (f x (snd (p st)))) = trace (snd (p st)) @ e2"
      and r2: "Rf x (fst (f x (snd (p st)))) e2" by (rule wtD)
    have "then_else p f g st = f x (snd (p st))"
      using Resolved by (cases "p st") (auto simp: then_else_def)
    with e1 e2 ok [OF r1 [unfolded Resolved] r2] show ?thesis by auto
  next
    case (Rejected e)
    from g [of e] obtain e2 where e2: "trace (snd (g e (snd (p st)))) = trace (snd (p st)) @ e2"
      and r2: "Rg e (fst (g e (snd (p st)))) e2" by (rule wtD)
    have "then_else p f g st = g e (snd (p st))"
      using Rejected by (cases "p st") (auto simp: then_else_def)
    with e1 e2 err [OF r1 [unfolded Rejected] r2] show ?thesis by auto
  next
    case Pending
    then have "then_else p f g st = (Pending, snd (p st))"
      by (cases "p st") (auto simp: then_else_def)
    with e1 pend [OF r1 [unfolded Pending]] show ?thesis by auto
  qed
qed

lemma then_do_then_else: "then_do p f = then_else p f reject"
  by (rule ext) (simp add: then_do_def then_else_def reject_def split: prod.splits outcome.splits)

lemma catch_do_then_else: "catch_do p g = then_else p resolve g"
  by (rule ext) (simp add: catch_do_def then_else_def resolve_def split: prod.splits outcome.splits)

lemma wt_then_do:
  assumes p: "wt p R1"
    and f: "\<And>x. wt (f x) (Rf x)"
    and ok: "\<And>x e1 r e2. R1 (Resolved x) e1 \<Longrightarrow> Rf x r e2 \<Longrightarrow> R r (e1 @ e2)"
    and err: "\<And>e e1. R1 (Rejected e) e1 \<Longrightarrow> R (Rejected e) e1"
    and pend: "\<And>e1. R1 Pending e1 \<Longrightarrow> R Pending e1"
  shows "wt (then_do p f) R"
  unfolding then_do_then_else
proof (rule wt_then_else [OF p f, where Rg = "\<lambda>e r evs. r = Rejected e \<and> evs = []"])
  show "wt (reject e) (\<lambda>r evs. r = Rejected e \<and> evs = [])" for e by (rule wt_reject) simp
qed (use ok err pend in auto)

lemma wt_catch_do:
  assumes p: "wt p R1"
    and g: "\<And>e. wt (g e) (Rg e)"
    and ok: "\<And>x e1. R1 (Resolved x) e1 \<Longrightarrow> R (Resolved x) e1"
    and err: "\<And>e e1 r e2. R1 (Rejected e) e1 \<Longrightarrow> Rg e r e2 \<Longrightarrow> R r (e1 @ e2)"
    and pend: "\<And>e1. R1 Pending e1 \<Longrightarrow> R Pending e1"
  shows "wt (catch_do p g) R"
  unfolding catch_do_then_else
proof (rule wt_then_else [OF p _ g, where Rf = "\<lambda>x r evs. r = Resolved x \<and> evs = []"])
  show "wt (resolve x) (\<lambda>r evs. r = Resolved x \<and> evs = [])" for x by (rule wt_resolve) simp
qed (use ok err pend in auto)

lemma wt_detached:
  assumes "wt p R1" and "\<And>r evs. R1 r evs \<Longrightarrow> R (Resolved ()) evs"
  shows "wt (detached p) R"
proof (rule wtI)
  fix st
  from assms(1) obtain evs where "trace (snd (p st)) = trace st @ evs" and "R1 (fst (p st)) evs"
    by (rule wtD)
  with assms(2) show "\<exists>evs. trace (snd (detached p st)) = trace st @ evs \<and> R (fst (detached p st)) evs"
    by (auto simp: detached_def)
qed

lemma emits_mono: "emits P p \<Longrightarrow> (\<And>ev. P ev \<Longrightarrow> Q ev) \<Longrightarrow> emits Q p"
  unfolding emits_def by (erule wt_mono) (auto simp: list_all_iff)

lemma emits_resolve [emits_intros]: "emits P (resolve x)"
  unfolding emits_def by (rule wt_resolve) simp

lemma emits_reject [emits_intros]: "emits P (reject e)"
  unfolding emits_def by (rule wt_reject) simp

lemma emits_pending [emits_intros]: "emits P pending"
  unfolding emits_def by (rule wt_pending) simp

lemma emits_then_else [emits_intros]:
  "emits P p \<Longrightarrow> (\<And>x. emits P (f x)) \<Longrightarrow> (\<And>e. emits P (g e)) \<Longrightarrow> emits P (then_else p f g)"
  unfolding emits_def by (erule wt_then_else) auto

lemma emits_then_do [emits_intros]:
  "emits P p \<Longrightarrow> (\<And>x. emits P (f x)) \<Longrightarrow> emits P (then_do p f)"
  unfolding emits_def by (erule wt_then_do) auto

lemma emits_catch_do [emits_intros]:
  "emits P p \<Longrightarrow> (\<And>e. emits P (g e)) \<Longrightarrow> emits P (catch_do p g)"
  unfolding emits_def by (erule wt_catch_do) auto

lemma emits_detached [emits_intros]: "emits P p \<Longrightarrow> emits P (detached p)"
  unfolding emits_def by (erule wt_detached) auto

lemma emits_promise_all_values [emits_intros]: "emits P (promise_all_values xs)"
  unfolding promise_all_values_def by (rule emits_resolve)

lemma emits_remember_room [emits_intros]: "emits P (remember_room a b)"
  by (simp add: emits_def wt_def remember_room_def)

lemma emits_promise_all2 [emits_intros]:
  assumes "emits P p" and "emits P q"
  shows "emits P (promise_all2 p q)"
  unfolding emits_def
proof (rule wtI)
  fix st
  obtain r1 st1 where p: "p st = (r1, st1)" by (cases "p st")
  obtain r2 st2 where q: "q st1 = (r2, st2)" by (cases "q st1")
  from assms(1) [unfolded emits_def] obtain e1 where "trace (snd (p st)) = trace st @ e1" "list_all P e1"
    by (rule wtD)
  moreover from assms(2) [unfolded emits_def] obtain e2 where "trace (snd (q st1)) = trace st1 @ e2" "list_all P e2"
    by (rule wtD)
  ultimately have "trace st2 = trace st @ (e1 @ e2)" "list_all P (e1 @ e2)"
    using p q by auto
  moreover have "snd (promise_all2 p q st) = st2"
    using p q by (simp add: promise_all2_def split: outcome.splits)
  ultimately show "\<exists>evs. trace (snd (promise_all2 p q st)) = trace st @ evs \<and> list_all P evs"
    by metis
qed

lemma emits_perform: "(\<And>e. P (c, e)) \<Longrightarrow> emits P (perform c answer)"
  unfolding emits_def by (rule wt_perform) auto

lemma emits_call_unit [emits_intros]: "(\<And>e. P (c, e)) \<Longrightarrow> emits P (call_unit env c)"
  unfolding call_unit_def by (rule emits_perform)

lemma emits_call_room [emits_intros]: "(\<And>e. P (c, e)) \<Longrightarrow> emits P (call_room env c)"
  unfolding call_room_def by (rule emits_perform)

lemma emits_call_upload [emits_intros]: "(\<And>e. P (c, e)) \<Longrightarrow> emits P (call_upload env c)"
  unfolding call_upload_def by (rule emits_perform)

lemma emits_call_bytes [emits_intros]: "(\<And>e. P (c, e)) \<Longrightarrow> emits P (call_bytes env c)"
  unfolding call_bytes_def by (rule emits_perform)

lemma emits_call_profile [emits_intros]: "(\<And>e. P (c, e)) \<Longrightarrow> emits P (call_profile env c)"
  unfolding call_profile_def by (rule emits_perform)

lemma emits_call_remote_user [emits_intros]: "(\<And>e. P (c, e)) \<Longrightarrow> emits P (call_remote_user env c)"
  unfolding call_remote_user_def by (rule emits_perform)

lemma emits_call_user_data [emits_intros]: "(\<And>e. P (c, e)) \<Longrightarrow> emits P (call_user_data env c)"
  unfolding call_user_data_def by (rule emits_perform)

lemma emits_call_room_data [emits_intros]: "(\<And>e. P (c, e)) \<Longrightarrow> emits P (call_room_data env c)"
  unfolding call_room_data_def by (rule emits_perform)

lemma emits_if [emits_intros]:
  "emits P p \<Longrightarrow> emits P q \<Longrightarrow> emits P (if c then p else q)"
  by simp

lemma emits_case_prod [emits_intros]:
  "(\<And>a b. emits P (f a b)) \<Longrightarrow> emits P (case x of (a, b) \<Rightarrow> f a b)"
  by (cases x) simp

lemma emits_case_option [emits_intros]:
  "emits P p \<Longrightarrow> (\<And>x. emits P (f x)) \<Longrightarrow> emits P (case v of None \<Rightarrow> p | Some x \<Rightarrow> f x)"
  by (cases v) simp_all

lemma emits_case_sum [emits_intros]:
  "(\<And>x. emits P (f x)) \<Longrightarrow> (\<And>x. emits P (g x)) \<Longrightarrow> emits P (case v of Inl x \<Rightarrow> f x | Inr x \<Rightarrow> g x)"
  by (cases v) simp_all

section \<open>Room lifecycle and ghost profiles send no message\<close>

lemma quiet_grant: "emits quiet (grantPuppetMaxPowerLevel env room)"
  unfolding grantPuppetMaxPowerLevel_def
  by (intro emits_intros) (simp_all add: quiet_def)

lemma quiet_setRoomAvatar: "emits quiet (setRoomAvatar env room url)"
  unfolding setRoomAvatar_def
  by (intro emits_intros) (simp_all add: quiet_def)

lemma quiet_setRoomAvatarFromDisk: "emits quiet (setRoomAvatarFromDisk env room url)"
  unfolding setRoomAvatarFromDisk_def
  by (intro emits_intros) (simp_all add: quiet_def)

lemma quiet_getStatusRoomId: "emits quiet (getStatusRoomId n env b a)"
proof (induction n)
  case 0
  show ?case by (simp add: emits_pending)
next
  case (Suc n)
  show ?case
    unfolding getStatusRoomId.simps Let_def
    by (intro emits_intros quiet_grant quiet_setRoomAvatarFromDisk Suc) (simp_all add: quiet_def)
qed

lemma quiet_getOrCreate: "emits quiet (getOrCreateMatrixRoomFromThirdPartyRoomId n env b a)"
proof (induction n)
  case 0
  show ?case by (simp add: emits_pending)
next
  case (Suc n)
  show ?case
    unfolding getOrCreateMatrixRoomFromThirdPartyRoomId.simps Let_def
    by (intro emits_intros quiet_grant quiet_setRoomAvatar Suc) (simp_all add: quiet_def)
qed

lemma quiet_sendStatusMsg: "emits quiet (sendStatusMsg n env b opts args)"
  unfolding sendStatusMsg_def Let_def
  by (intro emits_intros quiet_getStatusRoomId)

lemma quiet_getOrInit: "emits quiet (getOrInitRemoteUserStoreDataFromThirdPartyUserId env u)"
  unfolding getOrInitRemoteUserStoreDataFromThirdPartyUserId_def
  by (intro emits_intros) (simp_all add: quiet_def)

lemma quiet_setGhostAvatar: "emits quiet (setGhostAvatar env g u)"
  unfolding setGhostAvatar_def
  by (intro emits_intros) (simp_all add: quiet_def)

lemma quiet_getIntent: "emits quiet (getIntentFromThirdPartySenderId env b u nm av)"
  unfolding getIntentFromThirdPartySenderId_def Let_def
  by (intro emits_intros quiet_getOrInit quiet_setGhostAvatar) (simp_all add: quiet_def)

lemma quiet_prepare: "emits quiet (prepareMessageHandler n env b prep)"
  unfolding prepareMessageHandler_def Let_def
  by (intro emits_intros quiet_getOrCreate quiet_getIntent quiet_getStatusRoomId) (simp_all add: quiet_def)

section \<open>Results of handlers\<close>

lemma yields_mono:
  assumes "yields P Q p" and "\<And>ev. P ev \<Longrightarrow> P' ev" and "\<And>x. Q x \<Longrightarrow> Q' x"
  shows "yields P' Q' p"
  using assms(1) unfolding yields_def
  by (rule wt_mono) (use assms(2,3) in \<open>auto simp: list_all_iff\<close>)

lemma yields_emits: "yields P Q p \<Longrightarrow> emits P p"
  unfolding yields_def emits_def by (erule wt_mono) simp

lemma yields_resolve [yields_intros]: "Q x \<Longrightarrow> yields P Q (resolve x)"
  unfolding yields_def by (rule wt_resolve) simp

lemma yields_then_do [yields_intros]:
  "emits P p \<Longrightarrow> (\<And>x. yields P Q (f x)) \<Longrightarrow> yields P Q (then_do p f)"
  unfolding emits_def yields_def by (erule wt_then_do) auto

lemma yields_if [yields_intros]:
  "(c \<Longrightarrow> yields P Q p) \<Longrightarrow> (\<not> c \<Longrightarrow> yields P Q q) \<Longrightarrow> yields P Q (if c then p else q)"
  by simp

lemma yields_case_option [yields_intros]:
  "(v = None \<Longrightarrow> yields P Q p) \<Longrightarrow> (\<And>x. v = Some x \<Longrightarrow> yields P Q (f x))
     \<Longrightarrow> yields P Q (case v of None \<Rightarrow> p | Some x \<Rightarrow> f x)"
  by (cases v) simp_all

lemma emits_then_do_yields:
  assumes p: "yields P Q p" and f: "\<And>x. Q x \<Longrightarrow> emits P (f x)"
  shows "emits P (then_do p f)"
  unfolding emits_def
proof (rule wtI)
  fix st
  from p [unfolded yields_def] obtain e1 where e1: "trace (snd (p st)) = trace st @ e1"
    and pq: "list_all P e1 \<and> (\<forall>x. fst (p st) = Resolved x \<longrightarrow> Q x)"
    by (rule wtD [where st = st])
  from pq have p1: "list_all P e1" and q: "\<And>x. fst (p st) = Resolved x \<Longrightarrow> Q x"
    by simp_all
  show "\<exists>evs. trace (snd (then_do p f st)) = trace st @ evs \<and> list_all P evs"
  proof (cases "fst (p st)")
    case (Resolved x)
    from f [OF q [OF Resolved], unfolded emits_def]
    obtain e2 where "trace (snd (f x (snd (p st)))) = trace (snd (p st)) @ e2" and "list_all P e2"
      by (rule wtD)
    moreover have "then_do p f st = f x (snd (p st))"
      using Resolved by (cases "p st") (auto simp: then_do_def)
    ultimately show ?thesis using e1 p1 by auto
  next
    case (Rejected e)
    then have "snd (then_do p f st) = snd (p st)"
      by (cases "p st") (auto simp: then_do_def)
    with e1 p1 show ?thesis by auto
  next
    case Pending
    then have "snd (then_do p f st) = snd (p st)"
      by (cases "p st") (auto simp: then_do_def)
    with e1 p1 show ?thesis by auto
  qed
qed

lemma quiet_report:
  "emits quiet (detached (sendStatusMsg n env b opts args))"
  by (intro emits_intros quiet_sendStatusMsg)

lemma autoTagger_tag: "autoTagger sid b = tagMatrixMessage b"
  by (rule ext) (simp add: autoTagger_def)

lemma yields_reject [yields_intros]: "yields P Q (reject e)"
  unfolding yields_def by (rule wt_reject) simp

lemma yields_emitted:
  assumes "yields P Q p"
  shows "list_all P (emitted p st) \<and> (\<forall>x. fst (p st) = Resolved x \<longrightarrow> Q x)"
  using assms unfolding yields_def by (rule wt_emitted [THEN conjunct2])

lemma yields_then_do_yields:
  assumes p: "yields P Q p" and f: "\<And>x. Q x \<Longrightarrow> yields P Q' (f x)"
  shows "yields P Q' (then_do p f)"
  unfolding yields_def
proof (rule wtI)
  fix st
  from p [unfolded yields_def] obtain e1 where e1: "trace (snd (p st)) = trace st @ e1"
    and pq: "list_all P e1 \<and> (\<forall>x. fst (p st) = Resolved x \<longrightarrow> Q x)"
    by (rule wtD [where st = st])
  show "\<exists>evs. trace (snd (then_do p f st)) = trace st @ evs \<and>
          (list_all P evs \<and> (\<forall>x. fst (then_do p f st) = Resolved x \<longrightarrow> Q' x))"
  proof (cases "fst (p st)")
    case (Resolved x)
    with pq have "Q x" by simp
    from f [OF this, unfolded yields_def]
    obtain e2 where "trace (snd (f x (snd (p st)))) = trace (snd (p st)) @ e2"
      and "list_all P e2 \<and> (\<forall>y. fst (f x (snd (p st))) = Resolved y \<longrightarrow> Q' y)"
      by (rule wtD)
    moreover have "then_do p f st = f x (snd (p st))"
      using Resolved by (cases "p st") (auto simp: then_do_def)
    ultimately show ?thesis using e1 pq by auto
  next
    case (Rejected e)
    then have "then_do p f st = (Rejected e, snd (p st))"
      by (cases "p st") (auto simp: then_do_def)
    with e1 pq show ?thesis by auto
  next
    case Pending
    then have "then_do p f st = (Pending, snd (p st))"
      by (cases "p st") (auto simp: then_do_def)
    with e1 pq show ?thesis by auto
  qed
qed

lemma yields_prepare:
  "yields quiet
     (\<lambda>h. h_tag h = tagMatrixMessage b \<and>
           (h_ignore h = Some True) =
             (pp_senderId prep = None \<and> isTaggedMatrixMessage b (pp_text prep)))
     (prepareMessageHandler n env b prep)"
  unfolding prepareMessageHandler_def Let_def
  by (intro yields_intros emits_intros quiet_getOrCreate quiet_getIntent quiet_getStatusRoomId)
    (simp_all add: quiet_def autoTagger_tag)

section \<open>Evaluating sample runs\<close>

lemma a2b_general: "a2b (js ''general'') = js ''Z2VuZXJhbA==''"
  by (simp add: a2b_def js_def utf8_unit_def b64char_def is_high_surrogate_def is_low_surrogate_def)

lemma b2a_general: "b2a (js ''Z2VuZXJhbA=='') = js ''general''"
  by (simp add: b2a_def js_def base64_decode_def b64val_def ascii_decode_def)

lemmas run_simps =
  getOrCreateMatrixRoomFromThirdPartyRoomId.simps getStatusRoomId.simps
  prepareMessageHandler_def sendStatusMsg_def grantPuppetMaxPowerLevel_def
  getRoomAliasFromThirdPartyRoomId_def getRoomAliasLocalPartFromThirdPartyRoomId_def
  then_do_def then_else_def catch_do_def detached_def resolve_def reject_def pending_def
  promise_all_values_def remember_room_def perform_def
  call_unit_def call_room_def call_upload_def call_bytes_def call_room_data_def
  emitted_def Let_def truthy_def js_or_def str_of_def autoTagger_def tagMatrixMessage_def
  isTaggedMatrixMessage_def regexp_test_def js_ends_with_def defaultDeduplicationTag_def
  example_env_def example_base_def example_adapter_def start_def

section \<open>The ghost avatar\<close>

text \<open>
  C8. When the ghost's profile already carries an avatar, \<open>setGhostAvatar\<close> reads the
  profile and does nothing else: no download, no upload, no assignment. This holds in
  every state, so for every call of a repeated sequence.
\<close>

theorem setGhostAvatar_keeps_avatar:
  assumes "reply_profile env (trace st) (GetProfileInfo ghost) = Inr (Some url)" and "url \<noteq> []"
  shows "setGhostAvatar env ghost avatarUrl st =
           (Resolved (), st\<lparr>trace := trace st @ [(GetProfileInfo ghost, None)]\<rparr>)"
  using assms
  by (simp add: setGhostAvatar_def then_do_def call_profile_def perform_def truthy_def resolve_def)

theorem setGhostAvatar_keeps_avatar_witness:
  "reply_profile (example_env\<lparr>reply_profile := \<lambda>h c. Inr (Some (js ''mxc://example.org/me''))\<rparr>)
     (trace start) (GetProfileInfo (js ''@ghost:example.org'')) = Inr (Some (js ''mxc://example.org/me'')) \<and>
   js ''mxc://example.org/me'' \<noteq> [] \<and>
   emitted (setGhostAvatar (example_env\<lparr>reply_profile := \<lambda>h c. Inr (Some (js ''mxc://example.org/me''))\<rparr>)
      (js ''@ghost:example.org'') (js ''http://example.org/a.png'')) start
     = [(GetProfileInfo (js ''@ghost:example.org''), None)]"
proof -
  let ?env = "example_env\<lparr>reply_profile := \<lambda>h c. Inr (Some (js ''mxc://example.org/me''))\<rparr>"
  have 1: "reply_profile ?env (trace start) (GetProfileInfo (js ''@ghost:example.org'')) = Inr (Some (js ''mxc://example.org/me''))"
    by simp
  have 2: "js ''mxc://example.org/me'' \<noteq> []" by (simp add: js_def)
  from setGhostAvatar_keeps_avatar [OF 1 2, of "js ''http://example.org/a.png''"] 1 2
  show ?thesis by (simp add: emitted_def)
qed

section \<open>Status room traffic and read receipts\<close>

text \<open>
  C3. An untagged event of the puppet in the status room hands nothing to the adapter,
  as claimed; but it posts no notice either: \<open>sendStatusMsg\<close> resolves the status
  room and then gives \<open>Promise.all\<close> two functions that nobody calls. Every event
  of the run is \<open>quiet\<close>: no adapter relay and no message into any room.
\<close>

theorem status_room_event_posts_nothing:
  assumes "puppet_userId env = Some (e_sender data)"
    and "\<not> isTaggedMatrixMessage b (e_body data)"
    and "getThirdPartyRoomIdFromMatrixRoomId env b (e_room_id data) = Inr (Some (js ''status_room''))"
  shows "list_all quiet (emitted (handleMatrixMessageEvent n env b data) st)"
proof -
  have t: "truthy (Some (js ''status_room''))" by (simp add: truthy_def js_def)
  have "emits quiet (handleMatrixMessageEvent n env b data)"
    unfolding handleMatrixMessageEvent_def Let_def using assms t
    by (simp add: emits_catch_do quiet_sendStatusMsg quiet_report)
  then show ?thesis
    unfolding emits_def by (rule wt_emitted [THEN conjunct2])
qed

theorem status_room_event_posts_nothing_witness:
  "puppet_userId example_env = Some (e_sender status_room_event) \<and>
   \<not> isTaggedMatrixMessage example_base (e_body status_room_event) \<and>
   getThirdPartyRoomIdFromMatrixRoomId example_env example_base (e_room_id status_room_event)
     = Inr (Some (js ''status_room'')) \<and>
   list_all quiet (emitted (handleMatrixMessageEvent (Suc 0) example_env example_base status_room_event) start) \<and>
   emitted (handleMatrixMessageEvent (Suc 0) example_env example_base status_room_event) start =
     [(GetRoomIdForAlias (js ''#slack_puppet_me_status_room:example.org''), None),
      (SetPowerLevel (js ''!room:example.org'') (js ''@me:example.org'') 100, None),
      (JoinRoom (js ''!room:example.org''), None),
      (SetPowerLevel (js ''!room:example.org'') (js ''@me:example.org'') 100, None)]"
proof -
  have 1: "puppet_userId example_env = Some (e_sender status_room_event)"
    by (simp add: example_env_def status_room_event_def)
  have 2: "\<not> isTaggedMatrixMessage example_base (e_body status_room_event)"
    by (simp add: example_base_def status_room_event_def isTaggedMatrixMessage_def regexp_test_def
        js_ends_with_def defaultDeduplicationTag_def js_def)
  have 3: "getThirdPartyRoomIdFromMatrixRoomId example_env example_base (e_room_id status_room_event)
     = Inr (Some (js ''status_room''))"
    by (simp add: getThirdPartyRoomIdFromMatrixRoomId_def example_env_def js_def)
  have 4: "emitted (handleMatrixMessageEvent (Suc 0) example_env example_base status_room_event) start =
     [(GetRoomIdForAlias (js ''#slack_puppet_me_status_room:example.org''), None),
      (SetPowerLevel (js ''!room:example.org'') (js ''@me:example.org'') 100, None),
      (JoinRoom (js ''!room:example.org''), None),
      (SetPowerLevel (js ''!room:example.org'') (js ''@me:example.org'') 100, None)]"
    by code_simp
  from status_room_event_posts_nothing [OF 1 2 3, of "Suc 0" start] 1 2 3 4 show ?thesis
    by simp
qed




text \<open>
  The map the handler reads is the puppet session's own, which only
  \<open>saveThirdPartyRoomId\<close> fills; the room resolution records the room in the map of the
  bridge (line 419) and does not call it. After a resolution, with an adapter
  attached, a receipt of the puppet's own for the resolved room is not forwarded.
\<close>

lemma resolved_room_receipt_not_forwarded:
  "fst (getOrCreateMatrixRoomFromThirdPartyRoomId 1 example_env example_base (js ''Z2VuZXJhbA=='') start)
     = Resolved (rc_roomId example_receipt) \<and>
   thirdPartyRooms
     (snd (getOrCreateMatrixRoomFromThirdPartyRoomId 1 example_env example_base (js ''Z2VuZXJhbA=='') start))
     (rc_roomId example_receipt) = Some (js ''Z2VuZXJhbA=='') \<and>
   receipt_guard (setAdapter example_puppet example_adapter) \<and>
   read_by (puppet_id (setAdapter example_puppet example_adapter)) (rc_content example_receipt) \<and>
   emitted (on_room_receipt example_env (setAdapter example_puppet example_adapter) example_receipt)
     (snd (getOrCreateMatrixRoomFromThirdPartyRoomId 1 example_env example_base (js ''Z2VuZXJhbA=='') start))
     = []"
proof -
  have 1: "1 = Suc 0" by simp
  show ?thesis
    unfolding 1
    by (simp add: on_room_receipt_def receipt_guard_def setAdapter_def example_puppet_def
        example_receipt_def in_object_def object_prototype_keys_def run_simps js_def)
qed

section \<open>Tagging of what is sent\<close>

lemma quiet_tagged: "quiet ev \<Longrightarrow> tagged_send b ev"
  by (cases ev, cases "fst ev") (auto simp: quiet_def tagged_send_def)

lemma tagged_sendStatusMsg: "emits (tagged_send b) (sendStatusMsg n env b opts args)"
  by (rule emits_mono [OF quiet_sendStatusMsg quiet_tagged])

lemma tagged_prepare:
  "yields (tagged_send b) (\<lambda>h. h_tag h = tagMatrixMessage b) (prepareMessageHandler n env b prep)"
  by (rule yields_mono [OF yields_prepare quiet_tagged]) simp_all

lemma js_ends_with_tag: "js_ends_with (deduplicationTag b) (tagMatrixMessage b t)"
  by (simp add: tagMatrixMessage_def js_ends_with_append)

lemma tagged_status_notice: "emits (tagged_send b) (status_notice env b opts room msg)"
  unfolding status_notice_def Let_def
  by (intro emits_intros) (simp_all add: tagged_send_def js_ends_with_tag)

lemma tagged_text: "emits (tagged_send b) (handleThirdPartyRoomMessage n env b payload)"
  unfolding handleThirdPartyRoomMessage_def Let_def
  by (intro emits_intros emits_then_do_yields [OF tagged_prepare] tagged_sendStatusMsg)
    (simp_all add: tagged_send_def js_ends_with_tag)

lemma tagged_image: "emits (tagged_send b) (handleThirdPartyRoomImageMessage n env b payload)"
  unfolding handleThirdPartyRoomImageMessage_def Let_def
  by (intro emits_intros emits_then_do_yields [OF tagged_prepare] tagged_sendStatusMsg)
    (simp_all add: tagged_send_def js_ends_with_tag)

lemma emits_emitted: "emits P p \<Longrightarrow> list_all P (emitted p st)"
  unfolding emits_def by (rule wt_emitted [THEN conjunct2])

text \<open>
  C7. Every message body sent into a home-network room by the two inbound handlers, by
  \<open>sendStatusMsg\<close> and by the status notice ends with the deduplication tag, and an
  event whose body is recognised as tagged is dropped before anything else is done.
\<close>

theorem sends_are_tagged_and_tagged_events_dropped:
  "list_all (tagged_send b) (emitted (handleThirdPartyRoomMessage n env b payload) st) \<and>
   list_all (tagged_send b) (emitted (handleThirdPartyRoomImageMessage n env b ipayload) st) \<and>
   list_all (tagged_send b) (emitted (sendStatusMsg n env b opts args) st) \<and>
   list_all (tagged_send b) (emitted (status_notice env b opts room msg) st) \<and>
   (isTaggedMatrixMessage b (e_body data) \<longrightarrow> handleMatrixEvent n env b data st = (Resolved (), st))"
  by (simp add: emits_emitted tagged_text tagged_image tagged_sendStatusMsg tagged_status_notice
      handleMatrixEvent_def handleMatrixMessageEvent_def resolve_def)

section \<open>Echoes, failures and image sources\<close>

lemma then_do_snd_pure:
  assumes "\<And>x s. snd (f x s) = s"
  shows "snd (then_do p f st) = snd (p st)"
  using assms by (cases "p st") (auto simp: then_do_def split: outcome.splits)







lemma text_never_rejects: "fst (handleThirdPartyRoomMessage n env b payload st) \<noteq> Rejected e"
  unfolding handleThirdPartyRoomMessage_def Let_def
  by (simp add: catch_do_def detached_def split: prod.splits outcome.splits)

text \<open>
  C4. The text handler never rejects: its \<open>catch\<close> turns a failure into a call of
  \<open>sendStatusMsg\<close>. The image handler has no \<open>catch\<close>: when the room cannot be
  resolved, the rejection is the caller's, and nothing is reported.
\<close>

theorem image_failure_reaches_caller:
  assumes "fst (getOrCreateMatrixRoomFromThirdPartyRoomId n env b (a2b (ip_roomId payload)) st) = Rejected e"
  shows "handleThirdPartyRoomImageMessage n env b payload st =
           (Rejected e, snd (getOrCreateMatrixRoomFromThirdPartyRoomId n env b (a2b (ip_roomId payload)) st)) \<and>
         fst (handleThirdPartyRoomMessage n env b tpayload st') \<noteq> Rejected e'"
proof -
  have "handleThirdPartyRoomImageMessage n env b payload st =
           (Rejected e, snd (getOrCreateMatrixRoomFromThirdPartyRoomId n env b (a2b (ip_roomId payload)) st))"
    using assms unfolding handleThirdPartyRoomImageMessage_def Let_def prepareMessageHandler_def
    by (cases "getOrCreateMatrixRoomFromThirdPartyRoomId n env b (a2b (ip_roomId payload)) st")
       (simp add: then_do_def)
  then show ?thesis by (simp add: text_never_rejects)
qed

text \<open>
  C5. For a payload without \<open>url\<close> that has a \<open>path\<close>, or has none of the three
  sources, no image message and no fallback text is sent, and the handler resolves
  only for an ignored echo: otherwise calling \<open>promise\<close> throws past the pipeline.
\<close>

theorem path_image_is_never_sent:
  assumes "\<not> truthy (ip_url payload)"
    and "truthy (ip_path payload) \<or> ip_buffer payload = None"
  shows "list_all quiet (emitted (handleThirdPartyRoomImageMessage n env b payload) st) \<and>
         (fst (handleThirdPartyRoomImageMessage n env b payload st) = Resolved () \<longrightarrow>
            ip_senderId payload = None \<and> isTaggedMatrixMessage b (ip_text payload))"
proof -
  have "yields quiet (\<lambda>_. ip_senderId payload = None \<and> isTaggedMatrixMessage b (ip_text payload))
          (handleThirdPartyRoomImageMessage n env b payload)"
    unfolding handleThirdPartyRoomImageMessage_def Let_def
    apply (rule yields_then_do_yields [OF yields_prepare])
    using assms
    apply (auto simp: truthy_def intro!: yields_intros emits_intros simp: quiet_def split: option.splits if_splits)
    done
  from yields_emitted [OF this, of st] show ?thesis by simp
qed

theorem sends_are_tagged_and_tagged_events_dropped_witness:
  "isTaggedMatrixMessage example_base (e_body tagged_event) \<and>
   handleMatrixEvent (Suc 0) example_env example_base tagged_event start = (Resolved (), start) \<and>
   list_all (tagged_send example_base)
     (emitted (handleThirdPartyRoomMessage (Suc 0) example_env example_base own_text_payload) start) \<and>
   filter (\<lambda>ev. is_home_send (fst ev))
     (emitted (handleThirdPartyRoomMessage (Suc 0) example_env example_base own_text_payload) start) =
     [(SendMessage PuppetClient (js ''!room:example.org'')
         \<lparr>c_body = js ''hi'' @ [0x20, 0xFEFF], c_formatted_body = None, c_format = None,
          c_msgtype = js ''m.text''\<rparr>, None)]"
proof -
  have 1: "isTaggedMatrixMessage example_base (e_body tagged_event)"
    by (simp add: tagged_event_def status_room_event_def run_simps)
  have 2: "filter (\<lambda>ev. is_home_send (fst ev))
     (emitted (handleThirdPartyRoomMessage (Suc 0) example_env example_base own_text_payload) start) =
     [(SendMessage PuppetClient (js ''!room:example.org'')
         \<lparr>c_body = js ''hi'' @ [0x20, 0xFEFF], c_formatted_body = None, c_format = None,
          c_msgtype = js ''m.text''\<rparr>, None)]"
    by (simp add: handleThirdPartyRoomMessage_def own_text_payload_def run_simps js_def
        a2b_general [unfolded js_def, simplified])
  from sends_are_tagged_and_tagged_events_dropped
    [of example_base "Suc 0" example_env own_text_payload start _ _ _ _ _ tagged_event] 1 2
  show ?thesis by simp
qed


theorem path_image_is_never_sent_witness:
  "\<not> truthy (ip_url path_image_payload) \<and>
   (truthy (ip_path path_image_payload) \<or> ip_buffer path_image_payload = None) \<and>
   list_all quiet (emitted (handleThirdPartyRoomImageMessage (Suc 0) example_env example_base path_image_payload) start) \<and>
   fst (handleThirdPartyRoomImageMessage (Suc 0) example_env example_base path_image_payload start) =
     Rejected (TypeError (js ''promise is not a function'')) \<and>
   map fst (emitted (handleThirdPartyRoomImageMessage (Suc 0) example_env example_base path_image_payload) start) =
     [GetRoomIdForAlias (js ''#slack_puppet_me_Z2VuZXJhbA==:example.org''),
      JoinRoom (js ''!room:example.org''),
      SetPowerLevel (js ''!room:example.org'') (js ''@me:example.org'') 100,
      IntentLeave (js ''!room:example.org''),
      ReadFile (js ''/tmp/a.png''),
      Upload PuppetClient (js ''hi'') None None None]"
proof -
  have 1: "\<not> truthy (ip_url path_image_payload)"
    by (simp add: path_image_payload_def truthy_def)
  have 2: "truthy (ip_path path_image_payload) \<or> ip_buffer path_image_payload = None"
    by (simp add: path_image_payload_def)
  have 3: "fst (handleThirdPartyRoomImageMessage (Suc 0) example_env example_base path_image_payload start) =
     Rejected (TypeError (js ''promise is not a function''))"
    by (simp add: handleThirdPartyRoomImageMessage_def path_image_payload_def run_simps js_def
        a2b_general [unfolded js_def, simplified])
  have 4: "map fst (emitted (handleThirdPartyRoomImageMessage (Suc 0) example_env example_base path_image_payload) start) =
     [GetRoomIdForAlias (js ''#slack_puppet_me_Z2VuZXJhbA==:example.org''),
      JoinRoom (js ''!room:example.org''),
      SetPowerLevel (js ''!room:example.org'') (js ''@me:example.org'') 100,
      IntentLeave (js ''!room:example.org''),
      ReadFile (js ''/tmp/a.png''),
      Upload PuppetClient (js ''hi'') None None None]"
    by (simp add: handleThirdPartyRoomImageMessage_def path_image_payload_def run_simps js_def
        a2b_general [unfolded js_def, simplified])
  from path_image_is_never_sent [OF 1 2, of "Suc 0" example_env example_base start] 1 2 3 4
  show ?thesis by simp
qed

theorem image_failure_reaches_caller_witness:
  "fst (getOrCreateMatrixRoomFromThirdPartyRoomId (Suc 0) no_directory_env example_base
          (a2b (ip_roomId url_image_payload)) start) = Rejected (Error (js ''M_UNKNOWN'')) \<and>
   fst (handleThirdPartyRoomImageMessage (Suc 0) no_directory_env example_base url_image_payload start)
     = Rejected (Error (js ''M_UNKNOWN'')) \<and>
   map fst (emitted
      (handleThirdPartyRoomImageMessage (Suc 0) no_directory_env example_base url_image_payload) start) =
     [GetRoomIdForAlias (js ''#slack_puppet_me_Z2VuZXJhbA==:example.org''),
      AdapterGetRoomData (js ''general''),
      CreateRoom True (js ''general'') (js ''talk'') (js ''slack_puppet_me_Z2VuZXJhbA=='')] \<and>
   fst (handleThirdPartyRoomMessage (Suc 0) no_directory_env example_base own_text_payload start)
     = Resolved ()"
proof -
  have 1: "fst (getOrCreateMatrixRoomFromThirdPartyRoomId (Suc 0) no_directory_env example_base
          (a2b (ip_roomId url_image_payload)) start) = Rejected (Error (js ''M_UNKNOWN''))"
    by (simp add: url_image_payload_def path_image_payload_def no_directory_env_def run_simps
        a2b_general)
  have 2: "map fst (emitted
      (handleThirdPartyRoomImageMessage (Suc 0) no_directory_env example_base url_image_payload) start) =
     [GetRoomIdForAlias (js ''#slack_puppet_me_Z2VuZXJhbA==:example.org''),
      AdapterGetRoomData (js ''general''),
      CreateRoom True (js ''general'') (js ''talk'') (js ''slack_puppet_me_Z2VuZXJhbA=='')]"
    by (simp add: handleThirdPartyRoomImageMessage_def url_image_payload_def path_image_payload_def
        no_directory_env_def run_simps js_def
        a2b_general [unfolded js_def, simplified] b2a_general [unfolded js_def, simplified])
  have 3: "fst (handleThirdPartyRoomMessage (Suc 0) no_directory_env example_base own_text_payload start)
     = Resolved ()"
    by (simp add: handleThirdPartyRoomMessage_def own_text_payload_def no_directory_env_def
        run_simps js_def
        a2b_general [unfolded js_def, simplified] b2a_general [unfolded js_def, simplified])
  from image_failure_reaches_caller [OF 1] 1 2 3 show ?thesis by simp
qed

section \<open>The alias repair\<close>

lemma wt_conj:
  assumes "wt p R1" and "wt p R2"
  shows "wt p (\<lambda>r evs. R1 r evs \<and> R2 r evs)"
proof (rule wtI)
  fix st
  from wt_emitted [OF assms(1), of st] wt_emitted [OF assms(2), of st]
  show "\<exists>evs. trace (snd (p st)) = trace st @ evs \<and> R1 (fst (p st)) evs \<and> R2 (fst (p st)) evs"
    by blast
qed

lemma settles_resolve [settles_intros]: "settles (resolve x)"
  unfolding settles_def by (rule wt_resolve) simp

lemma settles_reject [settles_intros]: "settles (reject e)"
  unfolding settles_def by (rule wt_reject) simp

lemma settles_then_else [settles_intros]:
  "settles p \<Longrightarrow> (\<And>x. settles (f x)) \<Longrightarrow> (\<And>e. settles (g e)) \<Longrightarrow> settles (then_else p f g)"
  unfolding settles_def by (erule wt_then_else) auto

lemma settles_then_do [settles_intros]:
  "settles p \<Longrightarrow> (\<And>x. settles (f x)) \<Longrightarrow> settles (then_do p f)"
  unfolding settles_def by (erule wt_then_do) auto

lemma settles_catch_do [settles_intros]:
  "settles p \<Longrightarrow> (\<And>e. settles (g e)) \<Longrightarrow> settles (catch_do p g)"
  unfolding settles_def by (erule wt_catch_do) auto

lemma settles_detached [settles_intros]: "settles p \<Longrightarrow> settles (detached p)"
  unfolding settles_def by (erule wt_detached) auto

lemma settles_remember_room [settles_intros]: "settles (remember_room a b)"
  by (simp add: settles_def wt_def remember_room_def)

lemma settles_perform: "settles (perform c answer)"
  unfolding settles_def by (rule wt_perform) auto

lemma settles_call_unit [settles_intros]: "settles (call_unit env c)"
  unfolding call_unit_def by (rule settles_perform)

lemma settles_call_room [settles_intros]: "settles (call_room env c)"
  unfolding call_room_def by (rule settles_perform)

lemma settles_call_upload [settles_intros]: "settles (call_upload env c)"
  unfolding call_upload_def by (rule settles_perform)

lemma settles_call_bytes [settles_intros]: "settles (call_bytes env c)"
  unfolding call_bytes_def by (rule settles_perform)

lemma settles_call_room_data [settles_intros]: "settles (call_room_data env c)"
  unfolding call_room_data_def by (rule settles_perform)

lemma settles_if [settles_intros]:
  "settles p \<Longrightarrow> settles q \<Longrightarrow> settles (if c then p else q)"
  by simp

lemma settles_case_prod [settles_intros]:
  "(\<And>a b. settles (f a b)) \<Longrightarrow> settles (case x of (a, b) \<Rightarrow> f a b)"
  by (cases x) simp

lemma stillI: "settles p \<Longrightarrow> emits neutral p \<Longrightarrow> still p"
  unfolding still_def settles_def emits_def by (rule wt_conj)

lemmas neutral_defs = neutral_def is_lookup_def is_delete_def is_unjoinable_def

lemma settles_grant: "settles (grantPuppetMaxPowerLevel env room)"
  unfolding grantPuppetMaxPowerLevel_def by (intro settles_intros)

lemma neutral_grant: "emits neutral (grantPuppetMaxPowerLevel env room)"
  unfolding grantPuppetMaxPowerLevel_def by (intro emits_intros) (simp_all add: neutral_defs)

lemma settles_setRoomAvatar: "settles (setRoomAvatar env room url)"
  unfolding setRoomAvatar_def by (intro settles_intros)

lemma neutral_setRoomAvatar: "emits neutral (setRoomAvatar env room url)"
  unfolding setRoomAvatar_def by (intro emits_intros) (simp_all add: neutral_defs)

lemma settles_setRoomAvatarFromDisk: "settles (setRoomAvatarFromDisk env room url)"
  unfolding setRoomAvatarFromDisk_def by (intro settles_intros)

lemma neutral_setRoomAvatarFromDisk: "emits neutral (setRoomAvatarFromDisk env room url)"
  unfolding setRoomAvatarFromDisk_def by (intro emits_intros) (simp_all add: neutral_defs)

lemma still_grant: "still (grantPuppetMaxPowerLevel env room)"
  by (rule stillI [OF settles_grant neutral_grant])

lemma still_resolve: "still (resolve x)"
  by (rule stillI [OF settles_resolve emits_resolve])

lemma count_events_simps [simp]:
  "count_events P [] = 0"
  "count_events P (xs @ ys) = count_events P xs + count_events P ys"
  "count_events P (x # xs) = (if P x then Suc (count_events P xs) else count_events P xs)"
  by (simp_all add: count_events_def)

lemma count_neutral:
  assumes "list_all neutral evs"
  shows "count_events is_lookup evs = 0" and "count_events is_delete evs = 0"
    and "count_events is_unjoinable evs = 0" and "count_events is_delete_ok evs = 0"
  using assms by (induction evs) (auto simp: neutral_def is_delete_ok_def)

lemma wt_call_exact:
  "wt (perform c answer)
     (\<lambda>r evs. (\<exists>x. r = Resolved x \<and> evs = [(c, None)]) \<or> (\<exists>e. r = Rejected e \<and> evs = [(c, Some e)]))"
  by (rule wt_perform) auto

lemma wt_call_unit_exact:
  "wt (call_unit env c)
     (\<lambda>r evs. (\<exists>x. r = Resolved x \<and> evs = [(c, None)]) \<or> (\<exists>e. r = Rejected e \<and> evs = [(c, Some e)]))"
  unfolding call_unit_def by (rule wt_call_exact)

lemma wt_call_room_exact:
  "wt (call_room env c)
     (\<lambda>r evs. (\<exists>x. r = Resolved x \<and> evs = [(c, None)]) \<or> (\<exists>e. r = Rejected e \<and> evs = [(c, Some e)]))"
  unfolding call_room_def by (rule wt_call_exact)

lemma first_phase:
  assumes "\<And>x. still (f x)" and "\<And>e. still (g e)"
  shows "wt (then_else (call_room env (GetRoomIdForAlias a)) f g)
           (\<lambda>r evs. r \<noteq> Pending \<and> count_events is_lookup evs = 1 \<and> count_events is_delete evs = 0 \<and>
                     count_events is_unjoinable evs = 0 \<and> count_events is_delete_ok evs = 0)"
proof (rule wt_then_else [OF wt_call_room_exact,
      where Rf = "\<lambda>x r evs. r \<noteq> Pending \<and> list_all neutral evs"
        and Rg = "\<lambda>e r evs. r \<noteq> Pending \<and> list_all neutral evs"])
  show "wt (f x) (\<lambda>r evs. r \<noteq> Pending \<and> list_all neutral evs)" for x
    using assms(1) [of x] by (simp add: still_def)
  show "wt (g e) (\<lambda>r evs. r \<noteq> Pending \<and> list_all neutral evs)" for e
    using assms(2) [of e] by (simp add: still_def)
qed (auto simp: count_neutral is_lookup_def is_delete_def is_unjoinable_def is_delete_ok_def)

lemma repair_phase:
  assumes G: "wt G (repair_balance n)"
  shows "wt (then_do (call_unit env (DeleteAlias a)) (\<lambda>_. G)) (repair_step n)"
proof (rule wt_then_do [OF wt_call_unit_exact, where Rf = "\<lambda>x. repair_balance n"])
  show "wt G (repair_balance n)" by (rule G)
qed (auto simp: repair_balance_def repair_step_def is_lookup_def is_delete_def is_unjoinable_def
       is_delete_ok_def)

lemma join_phase:
  assumes G: "wt G (repair_balance n)" and f: "still f"
  shows "wt (then_else (call_unit env (JoinRoom room)) (\<lambda>_. f)
               (\<lambda>err. if message err = js ''No known servers''
                       then then_do (call_unit env (DeleteAlias a)) (\<lambda>_. G)
                       else resolve room))
           (join_balance n)"
proof (rule wt_then_else [OF wt_call_unit_exact,
      where Rf = "\<lambda>x r evs. r \<noteq> Pending \<and> list_all neutral evs"
        and Rg = "\<lambda>err r evs. if message err = js ''No known servers'' then repair_step n r evs
                       else r \<noteq> Pending \<and> evs = []"])
  show "wt f (\<lambda>r evs. r \<noteq> Pending \<and> list_all neutral evs)"
    using f by (simp add: still_def)
  show "wt (if message err = js ''No known servers''
               then then_do (call_unit env (DeleteAlias a)) (\<lambda>_. G) else resolve room)
             (\<lambda>r evs. if message err = js ''No known servers'' then repair_step n r evs
                       else r \<noteq> Pending \<and> evs = [])" for err
    using repair_phase [OF G, of env a] by (simp add: wt_resolve)
qed (auto simp: join_balance_def repair_step_def count_neutral is_lookup_def is_delete_def
       is_unjoinable_def is_delete_ok_def split: if_splits)

lemma balance_getOrCreate:
  "wt (getOrCreateMatrixRoomFromThirdPartyRoomId n env b ident) (repair_balance n)"
proof (induction n)
  case 0
  show ?case by (simp add: wt_pending repair_balance_def)
next
  case (Suc n)
  let ?room_alias = "getRoomAliasFromThirdPartyRoomId env b ident"
  let ?alias_name = "getRoomAliasLocalPartFromThirdPartyRoomId b ident"
  have create: "still
      (then_do (call_room_data env (AdapterGetRoomData (b2a ident)))
         (\<lambda>d. then_do (call_room env (CreateRoom True (r_name d) (r_topic d) ?alias_name))
                (\<lambda>room_id. if truthy (r_avatarUrl d)
                   then then_do (setRoomAvatar env room_id (str_of (r_avatarUrl d))) (\<lambda>_. resolve room_id)
                   else resolve room_id)))"
    by (rule stillI; intro settles_intros emits_intros settles_setRoomAvatar neutral_setRoomAvatar)
       (simp_all add: neutral_defs)
  have leave: "still
      (then_do (remember_room m ident)
         (\<lambda>_. then_do (detached (call_unit env (IntentLeave m))) (\<lambda>_. resolve m)))" for m
    by (rule stillI; intro settles_intros emits_intros) (simp_all add: neutral_defs)
  have join: "wt (then_else (call_unit env (JoinRoom m)) (\<lambda>_. grantPuppetMaxPowerLevel env m)
               (\<lambda>err. if message err = js ''No known servers''
                       then then_do (call_unit env (DeleteAlias ?room_alias))
                              (\<lambda>_. getOrCreateMatrixRoomFromThirdPartyRoomId n env b ident)
                       else resolve m))
           (join_balance n)" for m
    by (rule join_phase [OF Suc still_grant])
  have found: "wt (then_do
        (then_else (call_room env (GetRoomIdForAlias ?room_alias)) (\<lambda>room_id. resolve room_id)
           (\<lambda>err. then_do (call_room_data env (AdapterGetRoomData (b2a ident)))
              (\<lambda>d. then_do (call_room env (CreateRoom True (r_name d) (r_topic d) ?alias_name))
                (\<lambda>room_id. if truthy (r_avatarUrl d)
                   then then_do (setRoomAvatar env room_id (str_of (r_avatarUrl d))) (\<lambda>_. resolve room_id)
                   else resolve room_id))))
        (\<lambda>m. then_else (call_unit env (JoinRoom m)) (\<lambda>_. grantPuppetMaxPowerLevel env m)
               (\<lambda>err. if message err = js ''No known servers''
                       then then_do (call_unit env (DeleteAlias ?room_alias))
                              (\<lambda>_. getOrCreateMatrixRoomFromThirdPartyRoomId n env b ident)
                       else resolve m)))
      (repair_balance (Suc n))"
    by (rule wt_then_do [OF first_phase [OF still_resolve create] join])
       (auto simp: repair_balance_def join_balance_def)
  show ?case
    unfolding getOrCreateMatrixRoomFromThirdPartyRoomId.simps Let_def
    by (rule wt_then_do [OF found leave [unfolded still_def]])
       (auto simp: repair_balance_def count_neutral)
qed

lemma balance_getStatusRoomId:
  "wt (getStatusRoomId n env b alias) (repair_balance n)"
proof (induction n)
  case 0
  show ?case by (simp add: wt_pending repair_balance_def)
next
  case (Suc n)
  let ?local_part = "js_or alias (getRoomAliasLocalPartFromThirdPartyRoomId b (js ''status_room''))"
  let ?room_alias = "makeRoomAlias env ?local_part"
  have create: "still
      (then_do
         (call_room env
            (CreateRoom False (serviceName (the_adapter env) @ js '' Protocol'')
               (serviceName (the_adapter env) @ js '' Protocol Status Messages'') ?local_part))
         (\<lambda>room_id.
            if truthy (serviceIconPath (the_adapter env))
            then then_do
                   (setRoomAvatarFromDisk env room_id (str_of (serviceIconPath (the_adapter env))))
                   (\<lambda>_. resolve room_id)
            else resolve room_id))"
    by (rule stillI; intro settles_intros emits_intros settles_setRoomAvatarFromDisk
          neutral_setRoomAvatarFromDisk)
       (simp_all add: neutral_defs)
  have join: "wt (then_else (call_unit env (JoinRoom m)) (\<lambda>_. grantPuppetMaxPowerLevel env m)
               (\<lambda>err. if message err = js ''No known servers''
                       then then_do (call_unit env (DeleteAlias ?room_alias))
                              (\<lambda>_. getStatusRoomId n env b alias)
                       else resolve m))
           (join_balance n)" for m
    by (rule join_phase [OF Suc still_grant])
  show ?case
    unfolding getStatusRoomId.simps Let_def
    by (rule wt_then_do [OF first_phase [OF still_grant create] join])
       (auto simp: repair_balance_def join_balance_def)
qed

lemma linked_append:
  "linked L (xs @ ys) = (linked L xs \<and> linked L ys \<and> (xs = [] \<or> ys = [] \<or> L (last xs) (hd ys)))"
proof (induction L xs rule: linked.induct)
  case (1 L)
  then show ?case by simp
next
  case (2 L x)
  then show ?case by (cases ys) auto
next
  case (3 L x y zs)
  then show ?case by auto
qed

lemma linked_neutral: "list_all neutral evs \<Longrightarrow> linked (restart_link a) evs"
  by (induction "restart_link a" evs rule: linked.induct)
     (auto simp: restart_link_def neutral_def is_delete_ok_def)

lemma neutral_ends:
  assumes "list_all neutral evs" and "evs \<noteq> []"
  shows "neutral (hd evs)" and "neutral (last evs)"
  using assms by (auto simp: list_all_iff)

lemma segment_neutral_append:
  assumes "repair_segment a False xs" and "list_all neutral ys"
  shows "repair_segment a False (xs @ ys)"
proof (cases "ys = []")
  case True
  with assms show ?thesis by simp
next
  case False
  from neutral_ends [OF assms(2) False] assms False show ?thesis
    by (auto simp: repair_segment_def linked_append linked_neutral restart_link_def neutral_def
        is_delete_ok_def)
qed

lemma segment_append:
  assumes "repair_segment a False xs" and "repair_segment a stopped ys"
    and "\<not> is_lookup (hd ys)" and "\<not> is_delete (hd ys)"
  shows "repair_segment a stopped (xs @ ys)"
  using assms by (auto simp: repair_segment_def linked_append restart_link_def)

lemma segment_cons:
  assumes "repair_segment a stopped ys" and "restart_link a ev (hd ys)"
  shows "repair_segment a stopped (ev # ys)"
  using assms by (cases ys) (auto simp: repair_segment_def)

lemma segment_single:
  "\<not> is_unjoinable ev \<Longrightarrow> is_delete_ok ev = stopped \<Longrightarrow> repair_segment a stopped [ev]"
  by (simp add: repair_segment_def)

lemma segment_nonempty: "repair_segment a stopped xs \<Longrightarrow> xs \<noteq> []"
  by (simp add: repair_segment_def)

lemma lookup_phase:
  assumes "\<And>x. still (f x)" and "\<And>e. still (g e)"
  shows "wt (then_else (call_room env (GetRoomIdForAlias a)) f g)
           (\<lambda>r evs. r \<noteq> Pending \<and> fst (hd evs) = GetRoomIdForAlias a \<and> repair_segment a False evs)"
proof (rule wt_then_else [OF wt_call_room_exact,
      where Rf = "\<lambda>x r evs. r \<noteq> Pending \<and> list_all neutral evs"
        and Rg = "\<lambda>e r evs. r \<noteq> Pending \<and> list_all neutral evs"])
  show "wt (f x) (\<lambda>r evs. r \<noteq> Pending \<and> list_all neutral evs)" for x
    using assms(1) [of x] by (simp add: still_def)
  show "wt (g e) (\<lambda>r evs. r \<noteq> Pending \<and> list_all neutral evs)" for e
    using assms(2) [of e] by (simp add: still_def)
next
  fix x e1 and r :: "'a outcome" and e2
  assume "(\<exists>xa. Resolved x = Resolved xa \<and> e1 = [(GetRoomIdForAlias a, None)]) \<or>
          (\<exists>e. Resolved x = Rejected e \<and> e1 = [(GetRoomIdForAlias a, Some e)])"
    and "r \<noteq> Pending \<and> list_all neutral e2"
  then show "r \<noteq> Pending \<and> fst (hd (e1 @ e2)) = GetRoomIdForAlias a \<and> repair_segment a False (e1 @ e2)"
    using segment_neutral_append [of a "[(GetRoomIdForAlias a, None)]" e2]
    by (auto simp: segment_single is_unjoinable_def is_delete_ok_def is_delete_def)
next
  fix e e1 and r :: "'a outcome" and e2
  assume "(\<exists>xa. Rejected e = Resolved xa \<and> e1 = [(GetRoomIdForAlias a, None)]) \<or>
          (\<exists>ea. Rejected e = Rejected ea \<and> e1 = [(GetRoomIdForAlias a, Some ea)])"
    and "r \<noteq> Pending \<and> list_all neutral e2"
  then show "r \<noteq> Pending \<and> fst (hd (e1 @ e2)) = GetRoomIdForAlias a \<and> repair_segment a False (e1 @ e2)"
    using segment_neutral_append [of a "[(GetRoomIdForAlias a, Some e)]" e2]
    by (auto simp: segment_single is_unjoinable_def is_delete_ok_def is_delete_def)
qed auto

lemma delete_phase:
  assumes G: "wt G (repair_trace n a)"
  shows "wt (then_do (call_unit env (DeleteAlias a)) (\<lambda>_. G))
           (\<lambda>r evs. fst (hd evs) = DeleteAlias a \<and> repair_segment a (r = Pending) evs)"
proof (rule wt_then_do [OF wt_call_unit_exact, where Rf = "\<lambda>x. repair_trace n a"])
  show "wt G (repair_trace n a)" by (rule G)
next
  fix x :: unit and e1 and r :: "'a outcome" and e2
  assume 1: "(\<exists>xa. Resolved x = Resolved xa \<and> e1 = [(DeleteAlias a, None)]) \<or>
          (\<exists>e. Resolved x = Rejected e \<and> e1 = [(DeleteAlias a, Some e)])"
    and 2: "repair_trace n a r e2"
  show "fst (hd (e1 @ e2)) = DeleteAlias a \<and> repair_segment a (r = Pending) (e1 @ e2)"
  proof (cases "n = 0")
    case True
    with 1 2 show ?thesis
      by (auto simp: repair_trace_def segment_single is_unjoinable_def is_delete_ok_def is_delete_def)
  next
    case False
    with 2 have seg: "repair_segment a (r = Pending) e2" and first: "fst (hd e2) = GetRoomIdForAlias a"
      by (simp_all add: repair_trace_def)
    have "restart_link a (DeleteAlias a, None) (hd e2)"
      using first by (simp add: restart_link_def is_unjoinable_def is_delete_ok_def is_delete_def
          is_lookup_def)
    from segment_cons [OF seg this] 1 show ?thesis by auto
  qed
qed (auto simp: segment_single is_unjoinable_def is_delete_ok_def is_delete_def)

lemma join_phase2:
  assumes G: "wt G (repair_trace n a)" and f: "still f"
  shows "wt (then_else (call_unit env (JoinRoom room)) (\<lambda>_. f)
               (\<lambda>err. if message err = js ''No known servers''
                       then then_do (call_unit env (DeleteAlias a)) (\<lambda>_. G)
                       else resolve room))
           (\<lambda>r evs. \<not> is_lookup (hd evs) \<and> \<not> is_delete (hd evs) \<and> repair_segment a (r = Pending) evs)"
proof (rule wt_then_else [OF wt_call_unit_exact,
      where Rf = "\<lambda>x r evs. r \<noteq> Pending \<and> list_all neutral evs"
        and Rg = "\<lambda>err r evs. if message err = js ''No known servers''
                       then fst (hd evs) = DeleteAlias a \<and> repair_segment a (r = Pending) evs
                       else r \<noteq> Pending \<and> evs = []"])
  show "wt f (\<lambda>r evs. r \<noteq> Pending \<and> list_all neutral evs)"
    using f by (simp add: still_def)
  show "wt (if message err = js ''No known servers''
               then then_do (call_unit env (DeleteAlias a)) (\<lambda>_. G) else resolve room)
             (\<lambda>r evs. if message err = js ''No known servers''
                       then fst (hd evs) = DeleteAlias a \<and> repair_segment a (r = Pending) evs
                       else r \<noteq> Pending \<and> evs = [])" for err
    using delete_phase [OF G, of env] by (simp add: wt_resolve)
next
  fix x :: unit and e1 and r :: "'a outcome" and e2
  assume "(\<exists>xa. Resolved x = Resolved xa \<and> e1 = [(JoinRoom room, None)]) \<or>
          (\<exists>e. Resolved x = Rejected e \<and> e1 = [(JoinRoom room, Some e)])"
    and "r \<noteq> Pending \<and> list_all neutral e2"
  then show "\<not> is_lookup (hd (e1 @ e2)) \<and> \<not> is_delete (hd (e1 @ e2)) \<and>
             repair_segment a (r = Pending) (e1 @ e2)"
    using segment_neutral_append [of a "[(JoinRoom room, None)]" e2]
    by (auto simp: segment_single is_unjoinable_def is_delete_ok_def is_delete_def is_lookup_def)
next
  fix e e1 and r :: "'a outcome" and e2
  assume 1: "(\<exists>xa. Rejected e = Resolved xa \<and> e1 = [(JoinRoom room, None)]) \<or>
          (\<exists>ea. Rejected e = Rejected ea \<and> e1 = [(JoinRoom room, Some ea)])"
    and 2: "if message e = js ''No known servers''
            then fst (hd e2) = DeleteAlias a \<and> repair_segment a (r = Pending) e2
            else r \<noteq> Pending \<and> e2 = []"
  show "\<not> is_lookup (hd (e1 @ e2)) \<and> \<not> is_delete (hd (e1 @ e2)) \<and>
             repair_segment a (r = Pending) (e1 @ e2)"
  proof (cases "message e = js ''No known servers''")
    case True
    with 2 have seg: "repair_segment a (r = Pending) e2" and first: "fst (hd e2) = DeleteAlias a"
      by simp_all
    have "restart_link a (JoinRoom room, Some e) (hd e2)"
      using first True by (simp add: restart_link_def is_unjoinable_def is_delete_ok_def is_delete_def
          is_lookup_def)
    from segment_cons [OF seg this] 1 show ?thesis by (auto simp: is_lookup_def is_delete_def)
  next
    case False
    with 1 2 show ?thesis
      by (auto simp: segment_single is_unjoinable_def is_delete_ok_def is_delete_def is_lookup_def)
  qed
qed auto


lemma trace_getOrCreate:
  "wt (getOrCreateMatrixRoomFromThirdPartyRoomId n env b ident)
     (repair_trace n (getRoomAliasFromThirdPartyRoomId env b ident))"
proof (induction n)
  case 0
  show ?case by (simp add: wt_pending repair_trace_def)
next
  case (Suc n)
  let ?room_alias = "getRoomAliasFromThirdPartyRoomId env b ident"
  let ?alias_name = "getRoomAliasLocalPartFromThirdPartyRoomId b ident"
  have create: "still
      (then_do (call_room_data env (AdapterGetRoomData (b2a ident)))
         (\<lambda>d. then_do (call_room env (CreateRoom True (r_name d) (r_topic d) ?alias_name))
                (\<lambda>room_id. if truthy (r_avatarUrl d)
                   then then_do (setRoomAvatar env room_id (str_of (r_avatarUrl d))) (\<lambda>_. resolve room_id)
                   else resolve room_id)))"
    by (rule stillI; intro settles_intros emits_intros settles_setRoomAvatar neutral_setRoomAvatar)
       (simp_all add: neutral_defs)
  have leave: "still
      (then_do (remember_room m ident)
         (\<lambda>_. then_do (detached (call_unit env (IntentLeave m))) (\<lambda>_. resolve m)))" for m
    by (rule stillI; intro settles_intros emits_intros) (simp_all add: neutral_defs)
  have join: "wt (then_else (call_unit env (JoinRoom m)) (\<lambda>_. grantPuppetMaxPowerLevel env m)
               (\<lambda>err. if message err = js ''No known servers''
                       then then_do (call_unit env (DeleteAlias ?room_alias))
                              (\<lambda>_. getOrCreateMatrixRoomFromThirdPartyRoomId n env b ident)
                       else resolve m))
           (\<lambda>r evs. \<not> is_lookup (hd evs) \<and> \<not> is_delete (hd evs) \<and>
                     repair_segment ?room_alias (r = Pending) evs)" for m
    by (rule join_phase2 [OF Suc still_grant])
  have found: "wt (then_do
        (then_else (call_room env (GetRoomIdForAlias ?room_alias)) (\<lambda>room_id. resolve room_id)
           (\<lambda>err. then_do (call_room_data env (AdapterGetRoomData (b2a ident)))
              (\<lambda>d. then_do (call_room env (CreateRoom True (r_name d) (r_topic d) ?alias_name))
                (\<lambda>room_id. if truthy (r_avatarUrl d)
                   then then_do (setRoomAvatar env room_id (str_of (r_avatarUrl d))) (\<lambda>_. resolve room_id)
                   else resolve room_id))))
        (\<lambda>m. then_else (call_unit env (JoinRoom m)) (\<lambda>_. grantPuppetMaxPowerLevel env m)
               (\<lambda>err. if message err = js ''No known servers''
                       then then_do (call_unit env (DeleteAlias ?room_alias))
                              (\<lambda>_. getOrCreateMatrixRoomFromThirdPartyRoomId n env b ident)
                       else resolve m)))
      (\<lambda>r evs. fst (hd evs) = GetRoomIdForAlias ?room_alias \<and>
                repair_segment ?room_alias (r = Pending) evs)"
    by (rule wt_then_do [OF lookup_phase [OF still_resolve create] join])
       (auto simp: segment_append dest: segment_nonempty)
  show ?case
    unfolding getOrCreateMatrixRoomFromThirdPartyRoomId.simps Let_def
    by (rule wt_then_do [OF found leave [unfolded still_def]])
       (auto simp: repair_trace_def segment_neutral_append dest: segment_nonempty)
qed

lemma trace_getStatusRoomId:
  "wt (getStatusRoomId n env b alias)
     (repair_trace n
        (makeRoomAlias env
           (js_or alias (getRoomAliasLocalPartFromThirdPartyRoomId b (js ''status_room'')))))"
proof (induction n)
  case 0
  show ?case by (simp add: wt_pending repair_trace_def)
next
  case (Suc n)
  let ?local_part = "js_or alias (getRoomAliasLocalPartFromThirdPartyRoomId b (js ''status_room''))"
  let ?room_alias = "makeRoomAlias env ?local_part"
  have create: "still
      (then_do
         (call_room env
            (CreateRoom False (serviceName (the_adapter env) @ js '' Protocol'')
               (serviceName (the_adapter env) @ js '' Protocol Status Messages'') ?local_part))
         (\<lambda>room_id.
            if truthy (serviceIconPath (the_adapter env))
            then then_do
                   (setRoomAvatarFromDisk env room_id (str_of (serviceIconPath (the_adapter env))))
                   (\<lambda>_. resolve room_id)
            else resolve room_id))"
    by (rule stillI; intro settles_intros emits_intros settles_setRoomAvatarFromDisk
          neutral_setRoomAvatarFromDisk)
       (simp_all add: neutral_defs)
  have join: "wt (then_else (call_unit env (JoinRoom m)) (\<lambda>_. grantPuppetMaxPowerLevel env m)
               (\<lambda>err. if message err = js ''No known servers''
                       then then_do (call_unit env (DeleteAlias ?room_alias))
                              (\<lambda>_. getStatusRoomId n env b alias)
                       else resolve m))
           (\<lambda>r evs. \<not> is_lookup (hd evs) \<and> \<not> is_delete (hd evs) \<and>
                     repair_segment ?room_alias (r = Pending) evs)" for m
    by (rule join_phase2 [OF Suc still_grant])
  show ?case
    unfolding getStatusRoomId.simps Let_def
    by (rule wt_then_do [OF lookup_phase [OF still_grant create] join])
       (auto simp: repair_trace_def segment_append dest: segment_nonempty)
qed

text \<open>
  The order and the alias are part of \<open>repair_trace\<close>: the same three events out of
  order, and a repair that deletes another alias, do not satisfy it.
\<close>

lemma repair_trace_is_strict:
  "\<not> repair_trace 1 (js ''#a:example.org'') Pending
       [(DeleteAlias (js ''#a:example.org''), None),
        (GetRoomIdForAlias (js ''#a:example.org''), None),
        (JoinRoom (js ''!room:example.org''), Some (Error (js ''No known servers'')))] \<and>
   \<not> repair_trace 1 (js ''#a:example.org'') Pending
       [(GetRoomIdForAlias (js ''#a:example.org''), None),
        (JoinRoom (js ''!room:example.org''), Some (Error (js ''No known servers''))),
        (DeleteAlias (js ''#b:example.org''), None)] \<and>
   repair_trace 1 (js ''#a:example.org'') Pending
       [(GetRoomIdForAlias (js ''#a:example.org''), None),
        (JoinRoom (js ''!room:example.org''), Some (Error (js ''No known servers''))),
        (DeleteAlias (js ''#a:example.org''), None)]"
  by (simp add: repair_trace_def repair_segment_def restart_link_def is_unjoinable_def
      is_delete_ok_def is_delete_def is_lookup_def js_def)

text \<open>
  C6 (amended). In every run of the room resolution and of the status room resolution,
  with \<open>a\<close> the room alias the resolution works on: the run starts with the lookup of
  \<open>a\<close>; a join that fails with "No known servers" is directly followed by the deletion
  of \<open>a\<close>, and a successful deletion directly by the lookup of \<open>a\<close> again; no alias is
  deleted and no lookup is made in any other place. There are as many deletions as
  such failures and one lookup more than successful deletions, and a run is cut off
  only after as many restarts as the bound allows, so it settles whenever fewer joins
  fail. Nothing bounds the restarts, and the room the restart finds is the directory's
  choice.
\<close>

theorem repair_restarts_in_order:
  "repair_trace n (getRoomAliasFromThirdPartyRoomId env b ident)
     (fst (getOrCreateMatrixRoomFromThirdPartyRoomId n env b ident st))
     (emitted (getOrCreateMatrixRoomFromThirdPartyRoomId n env b ident) st) \<and>
   repair_balance n (fst (getOrCreateMatrixRoomFromThirdPartyRoomId n env b ident st))
     (emitted (getOrCreateMatrixRoomFromThirdPartyRoomId n env b ident) st) \<and>
   repair_trace n
     (makeRoomAlias env (js_or alias (getRoomAliasLocalPartFromThirdPartyRoomId b (js ''status_room''))))
     (fst (getStatusRoomId n env b alias st)) (emitted (getStatusRoomId n env b alias) st) \<and>
   repair_balance n (fst (getStatusRoomId n env b alias st))
     (emitted (getStatusRoomId n env b alias) st)"
  using wt_emitted [OF balance_getOrCreate] wt_emitted [OF balance_getStatusRoomId]
    wt_emitted [OF trace_getOrCreate] wt_emitted [OF trace_getStatusRoomId] by blast

lemmas count_defs = count_events_def is_lookup_def is_delete_def is_delete_ok_def is_unjoinable_def

theorem repair_restarts_in_order_witness:
  "fst (getOrCreateMatrixRoomFromThirdPartyRoomId 2 repaired_env example_base (js ''Z2VuZXJhbA=='') start)
     = Resolved (js ''!new:example.org'') \<and>
   emitted (getOrCreateMatrixRoomFromThirdPartyRoomId 2 repaired_env example_base (js ''Z2VuZXJhbA=='')) start =
     [(GetRoomIdForAlias (js ''#slack_puppet_me_Z2VuZXJhbA==:example.org''), None),
      (JoinRoom (js ''!old:example.org''), Some (Error (js ''No known servers''))),
      (DeleteAlias (js ''#slack_puppet_me_Z2VuZXJhbA==:example.org''), None),
      (GetRoomIdForAlias (js ''#slack_puppet_me_Z2VuZXJhbA==:example.org''),
         Some (Error (js ''M_NOT_FOUND''))),
      (AdapterGetRoomData (js ''general''), None),
      (CreateRoom True (js ''general'') (js ''talk'') (js ''slack_puppet_me_Z2VuZXJhbA==''), None),
      (JoinRoom (js ''!new:example.org''), None),
      (SetPowerLevel (js ''!new:example.org'') (js ''@me:example.org'') 100, None),
      (IntentLeave (js ''!new:example.org''), None),
      (IntentLeave (js ''!new:example.org''), None)] \<and>
   getRoomAliasFromThirdPartyRoomId repaired_env example_base (js ''Z2VuZXJhbA=='')
     = js ''#slack_puppet_me_Z2VuZXJhbA==:example.org'' \<and>
   repair_trace 2 (js ''#slack_puppet_me_Z2VuZXJhbA==:example.org'')
     (fst (getOrCreateMatrixRoomFromThirdPartyRoomId 2 repaired_env example_base (js ''Z2VuZXJhbA=='') start))
     (emitted (getOrCreateMatrixRoomFromThirdPartyRoomId 2 repaired_env example_base (js ''Z2VuZXJhbA=='')) start) \<and>
   repair_balance 2
     (fst (getOrCreateMatrixRoomFromThirdPartyRoomId 2 repaired_env example_base (js ''Z2VuZXJhbA=='') start))
     (emitted (getOrCreateMatrixRoomFromThirdPartyRoomId 2 repaired_env example_base (js ''Z2VuZXJhbA=='')) start)"
proof -
  have 2: "2 = Suc (Suc 0)" by simp
  have run: "fst (getOrCreateMatrixRoomFromThirdPartyRoomId 2 repaired_env example_base (js ''Z2VuZXJhbA=='') start)
     = Resolved (js ''!new:example.org'') \<and>
   emitted (getOrCreateMatrixRoomFromThirdPartyRoomId 2 repaired_env example_base (js ''Z2VuZXJhbA=='')) start =
     [(GetRoomIdForAlias (js ''#slack_puppet_me_Z2VuZXJhbA==:example.org''), None),
      (JoinRoom (js ''!old:example.org''), Some (Error (js ''No known servers''))),
      (DeleteAlias (js ''#slack_puppet_me_Z2VuZXJhbA==:example.org''), None),
      (GetRoomIdForAlias (js ''#slack_puppet_me_Z2VuZXJhbA==:example.org''),
         Some (Error (js ''M_NOT_FOUND''))),
      (AdapterGetRoomData (js ''general''), None),
      (CreateRoom True (js ''general'') (js ''talk'') (js ''slack_puppet_me_Z2VuZXJhbA==''), None),
      (JoinRoom (js ''!new:example.org''), None),
      (SetPowerLevel (js ''!new:example.org'') (js ''@me:example.org'') 100, None),
      (IntentLeave (js ''!new:example.org''), None),
      (IntentLeave (js ''!new:example.org''), None)]"
    unfolding 2
    by (simp add: repaired_env_def run_simps count_defs js_def b2a_general [unfolded js_def, simplified])
  have room_alias: "getRoomAliasFromThirdPartyRoomId repaired_env example_base (js ''Z2VuZXJhbA=='')
     = js ''#slack_puppet_me_Z2VuZXJhbA==:example.org''"
    by (simp add: repaired_env_def run_simps js_def)
  from repair_restarts_in_order [of 2 repaired_env example_base "js ''Z2VuZXJhbA==''" start]
  have "repair_trace 2 (js ''#slack_puppet_me_Z2VuZXJhbA==:example.org'')
     (fst (getOrCreateMatrixRoomFromThirdPartyRoomId 2 repaired_env example_base (js ''Z2VuZXJhbA=='') start))
     (emitted (getOrCreateMatrixRoomFromThirdPartyRoomId 2 repaired_env example_base (js ''Z2VuZXJhbA=='')) start) \<and>
   repair_balance 2
     (fst (getOrCreateMatrixRoomFromThirdPartyRoomId 2 repaired_env example_base (js ''Z2VuZXJhbA=='') start))
     (emitted (getOrCreateMatrixRoomFromThirdPartyRoomId 2 repaired_env example_base (js ''Z2VuZXJhbA=='')) start)"
    unfolding room_alias by blast
  with run room_alias show ?thesis by blast
qed

text \<open>
  The claim as stated fails: while the directory keeps answering the same emptied room,
  the alias is deleted and the lookup repeated a second time, and the room finally
  returned is the one whose join had failed.
\<close>

theorem repair_twice_same_room_counterexample:
  "fst (getOrCreateMatrixRoomFromThirdPartyRoomId 3 stale_env example_base (js ''Z2VuZXJhbA=='') start)
     = Resolved (js ''!room:example.org'') \<and>
   map fst (filter (\<lambda>ev. is_unjoinable ev \<or> is_delete ev \<or> is_lookup ev)
     (emitted (getOrCreateMatrixRoomFromThirdPartyRoomId 3 stale_env example_base (js ''Z2VuZXJhbA=='')) start)) =
     [GetRoomIdForAlias (js ''#slack_puppet_me_Z2VuZXJhbA==:example.org''),
      JoinRoom (js ''!room:example.org''),
      DeleteAlias (js ''#slack_puppet_me_Z2VuZXJhbA==:example.org''),
      GetRoomIdForAlias (js ''#slack_puppet_me_Z2VuZXJhbA==:example.org''),
      JoinRoom (js ''!room:example.org''),
      DeleteAlias (js ''#slack_puppet_me_Z2VuZXJhbA==:example.org''),
      GetRoomIdForAlias (js ''#slack_puppet_me_Z2VuZXJhbA==:example.org'')]"
proof -
  have 3: "3 = Suc (Suc (Suc 0))" by simp
  show ?thesis
    unfolding 3
    by (simp add: stale_env_def run_simps count_defs js_def)
qed

end
